theory Spec2Isabelle
  imports Main
begin

text \<open>
  The CertificateRequest controller of horizon-issuer
  (\<open>controllers/certificaterequest_controller.go\<close>): its method \<open>Reconcile\<close> as a
  function of the stored request and of the answers of its collaborators, giving
  how the reconcile ended, the stored request afterwards and what it did, in
  order. The unused method \<open>updateCertificateRequest\<close> is left out, and of the
  issuer controller only the error value \<open>errGetAuthSecret\<close> is used.
\<close>

section \<open>Errors\<close>

text \<open>
  A Go \<open>error\<close> value. \<open>New s\<close> is \<open>errors.New(s)\<close> (and any other error known only
  by its text \<open>s\<close>); \<open>Wrap e s\<close> is the result of \<open>fmt.Errorf\<close> with a \<open>%w\<close> verb: it
  wraps \<open>e\<close> and prints as \<open>s\<close>.
\<close>

datatype error = New string | Wrap error string

text \<open>The \<open>Error()\<close> method.\<close>

fun Error :: "error \<Rightarrow> string" where
  "Error (New s) = s"
| "Error (Wrap e s) = s"

text \<open>
  What \<open>Reconcile\<close> hands back as its \<open>err\<close>: the error of the action step as it
  is, or the \<open>utilerrors.Aggregate\<close> built by the deferred function.
\<close>

datatype returned = Plain error | Aggregate "error list"

text \<open>\<open>utilerrors.NewAggregate\<close>: nil entries are dropped, and an empty list gives nil.\<close>

definition NewAggregate :: "error option list \<Rightarrow> returned option" where
  "NewAggregate errlist =
     (let errs = List.map_filter (\<lambda>e. e) errlist
      in if errs = [] then None else Some (Aggregate errs))"

text \<open>The package-level error values of the two controllers.\<close>

abbreviation errIssuerRef :: error where
  "errIssuerRef \<equiv> New ''error interpreting issuerRef''"
abbreviation errGetIssuer :: error where
  "errGetIssuer \<equiv> New ''error getting issuer''"
abbreviation errIssuerNotReady :: error where
  "errIssuerNotReady \<equiv> New ''issuer is not ready''"
abbreviation errInvalidBaseUrl :: error where
  "errInvalidBaseUrl \<equiv> New ''invalid base url''"
abbreviation errUnknownHorizon :: error where
  "errUnknownHorizon \<equiv> New ''horizon returned an error''"
abbreviation errGetAuthSecret :: error where
  "errGetAuthSecret \<equiv> New ''failed to get Secret containing Issuer credentials''"

abbreviation requestIdAnnotation :: string where
  "requestIdAnnotation \<equiv> ''horizon.evertrust.io/request-id''"

text \<open>\<open>fmt.Errorf("%w: %v", sentinel, err)\<close>.\<close>

definition Errorf_w_v :: "error \<Rightarrow> error \<Rightarrow> error" where
  "Errorf_w_v sentinel err = Wrap sentinel (Error sentinel @ '': '' @ Error err)"

section \<open>The objects\<close>

record NamespacedName =
  nn_Namespace :: string
  nn_Name :: string

text \<open>\<open>NamespacedName.String()\<close>, which the \<open>%s\<close> verb prints.\<close>

definition NamespacedName_String :: "NamespacedName \<Rightarrow> string" where
  "NamespacedName_String n = nn_Namespace n @ ''/'' @ nn_Name n"

text \<open>\<open>fmt.Errorf("%w, secret name: %s, reason: %v", sentinel, secretName, err)\<close>.\<close>

definition Errorf_secret :: "error \<Rightarrow> NamespacedName \<Rightarrow> error \<Rightarrow> error" where
  "Errorf_secret sentinel secretName err =
     Wrap sentinel (Error sentinel @ '', secret name: '' @ NamespacedName_String secretName
                    @ '', reason: '' @ Error err)"

record ObjectReference =
  Name :: string
  Kind :: string
  Group :: string

text \<open>
  A condition of a CertificateRequest. \<open>Type\<close>, \<open>Status\<close> and \<open>Reason\<close> are strings in
  Go; times are points on an abstract clock.
\<close>

record CertificateRequestCondition =
  Type :: string
  cond_Status :: string
  LastTransitionTime :: "nat option"
  Reason :: string
  Message :: string

abbreviation CertificateRequestConditionReady :: string where
  "CertificateRequestConditionReady \<equiv> ''Ready''"
abbreviation CertificateRequestConditionApproved :: string where
  "CertificateRequestConditionApproved \<equiv> ''Approved''"
abbreviation CertificateRequestConditionDenied :: string where
  "CertificateRequestConditionDenied \<equiv> ''Denied''"
abbreviation ConditionTrue :: string where
  "ConditionTrue \<equiv> ''True''"
abbreviation ConditionFalse :: string where
  "ConditionFalse \<equiv> ''False''"
abbreviation CertificateRequestReasonPending :: string where
  "CertificateRequestReasonPending \<equiv> ''Pending''"
abbreviation CertificateRequestReasonFailed :: string where
  "CertificateRequestReasonFailed \<equiv> ''Failed''"
abbreviation CertificateRequestReasonIssued :: string where
  "CertificateRequestReasonIssued \<equiv> ''Issued''"
abbreviation CertificateRequestReasonDenied :: string where
  "CertificateRequestReasonDenied \<equiv> ''Denied''"

record CertificateRequestSpec =
  IssuerRef :: ObjectReference
  Request :: string

record CertificateRequestStatus =
  Conditions :: "CertificateRequestCondition list"
  Certificate :: string
  FailureTime :: "nat option"

text \<open>
  The CertificateRequest. \<open>Annotations\<close> is a Go map, which may be nil: \<open>None\<close> is the
  nil map, \<open>Some m\<close> an allocated one. Reading a nil map finds nothing; writing to
  it panics.
\<close>

record CertificateRequest =
  Namespace :: string
  Annotations :: "(string \<rightharpoonup> string) option"
  Spec :: CertificateRequestSpec
  Status :: CertificateRequestStatus

definition annotation :: "CertificateRequest \<Rightarrow> string \<Rightarrow> string option" where
  "annotation cr k = (case Annotations cr of None \<Rightarrow> None | Some m \<Rightarrow> m k)"

record IssuerSpec =
  URL :: string
  Profile :: string
  AuthSecretName :: string

text \<open>The parsed form of a base URL, kept opaque.\<close>

datatype url_URL = Parsed string

text \<open>A label of an enrollment; the reconciler only ever passes the empty list.\<close>

datatype LabelElement = Label string string

text \<open>The request as the Horizon service reports it.\<close>

record HorizonRequest =
  req_Id :: string
  req_Status :: string
  req_Certificate :: string

text \<open>
  What \<open>Scheme.New\<close> builds for a kind: the \<open>Issuer\<close> type, another type that is a
  \<open>client.Object\<close> (given by its \<open>%v\<close> text), or a type that is not one, on which the
  type assertion \<open>issuerRO.(client.Object)\<close> panics.
\<close>

datatype RuntimeObject = IssuerObject | OtherObject string | NotClientObject

record Result =
  Requeue :: bool
  RequeueAfter :: int

abbreviation Result_zero :: Result where
  "Result_zero \<equiv> \<lparr>Requeue = False, RequeueAfter = 0\<rparr>"

text \<open>\<open>time.Minute\<close>, in nanoseconds.\<close>

abbreviation time_Minute :: int where
  "time_Minute \<equiv> 60000000000"

section \<open>Conditions (package cmutil of cert-manager)\<close>

text \<open>
  Modelled from the spec: the condition helpers of cert-manager's \<open>pkg/api/util\<close>
  (\<open>cmutil\<close>, v1.6.1 in \<open>go.mod\<close>) are not among the sources. A request has a
  condition when one of its conditions has the given type and status and, if a
  reason is asked for, that reason: the states "Ready=True", "Ready=False" with
  "Reason=Failed" and "Ready=False" with "Reason=Denied" of the specification.
\<close>

definition CertificateRequestHasCondition ::
  "CertificateRequest \<Rightarrow> CertificateRequestCondition \<Rightarrow> bool" where
  "CertificateRequestHasCondition cr c =
     list_ex (\<lambda>cond. Type c = Type cond \<and> cond_Status c = cond_Status cond
                     \<and> (Reason c = [] \<or> Reason c = Reason cond))
             (Conditions (Status cr))"

text \<open>
  Modelled from the spec: \<open>cmutil.CertificateRequestIsDenied\<close> and
  \<open>cmutil.CertificateRequestIsApproved\<close>. Denied (approved) is a \<open>Denied\<close>
  (\<open>Approved\<close>) condition of status \<open>True\<close>: "an external approval signal marks the
  request denied", and on completion the reconciler itself sets "Approved=True".
\<close>

definition CertificateRequestIsDenied :: "CertificateRequest \<Rightarrow> bool" where
  "CertificateRequestIsDenied cr =
     list_ex (\<lambda>con. Type con = CertificateRequestConditionDenied \<and> cond_Status con = ConditionTrue)
             (Conditions (Status cr))"

definition CertificateRequestIsApproved :: "CertificateRequest \<Rightarrow> bool" where
  "CertificateRequestIsApproved cr =
     list_ex (\<lambda>con. Type con = CertificateRequestConditionApproved \<and> cond_Status con = ConditionTrue)
             (Conditions (Status cr))"

text \<open>
  Modelled from the spec: \<open>cmutil.SetCertificateRequestCondition\<close>. Setting a
  condition keeps "at most one condition per Type": the first condition of that
  type is overwritten (its transition time kept when the status does not change),
  and a condition of a new type is appended. \<open>nowTime\<close> is the reading of cmutil's
  clock.
\<close>

fun set_condition ::
  "CertificateRequestCondition \<Rightarrow> CertificateRequestCondition list \<Rightarrow> CertificateRequestCondition list"
where
  "set_condition newCondition [] = [newCondition]"
| "set_condition newCondition (cond # conds) =
     (if Type cond \<noteq> Type newCondition then cond # set_condition newCondition conds
      else (if cond_Status cond = cond_Status newCondition
            then newCondition\<lparr>LastTransitionTime := LastTransitionTime cond\<rparr>
            else newCondition) # conds)"

definition SetCertificateRequestCondition ::
  "nat \<Rightarrow> CertificateRequest \<Rightarrow> string \<Rightarrow> string \<Rightarrow> string \<Rightarrow> string \<Rightarrow> CertificateRequest" where
  "SetCertificateRequestCondition nowTime cr conditionType status reason message =
     cr\<lparr>Status := (Status cr)\<lparr>Conditions :=
          set_condition \<lparr>Type = conditionType, cond_Status = status,
                          LastTransitionTime = Some nowTime, Reason = reason, Message = message\<rparr>
                        (Conditions (Status cr))\<rparr>\<rparr>"

section \<open>The reconciler's collaborators\<close>

text \<open>
  The receiver of \<open>Reconcile\<close> with everything it calls outside the two
  controllers, as it answers during one reconcile. None of it is among the
  sources, so it is a parameter:
  \<^item> \<open>GroupVersion_Group\<close>: the constant \<open>issuerapi.GroupVersion.Group\<close>;
  \<^item> \<open>Get_CertificateRequest_err\<close>: the error of \<open>r.Get\<close> for the request when it
    fails other than by "not found";
  \<^item> \<open>Scheme_New\<close>: \<open>r.Scheme.New\<close> at the kind of the issuerRef;
  \<^item> \<open>Get_Issuer\<close>, \<open>Get_Secret\<close>: \<open>r.Get\<close> for the issuer and for its secret;
  \<^item> \<open>GetSpecAndStatus\<close>, \<open>IsReady\<close>: the helpers of \<open>controllers/util\<close>; \<open>'i\<close> is the
    issuer object as fetched, \<open>'s\<close> its status;
  \<^item> \<open>url_Parse\<close>: \<open>url.Parse\<close>;
  \<^item> \<open>Requests_Get\<close>, \<open>Requests_DecentralizedEnroll\<close>: the Horizon client;
  \<^item> \<open>Update_err\<close>, \<open>Status_Update_err\<close>: the error, if any, of \<open>r.Update\<close> and of
    \<open>r.Status().Update\<close>;
  \<^item> \<open>Clock_Now\<close>: \<open>r.Clock.Now()\<close>; \<open>cmutil_Clock_Now k\<close>: the reading number \<open>k\<close>
    of cmutil's clock.
\<close>

record ('i, 's) CertificateRequestReconciler =
  GroupVersion_Group :: string
  Get_CertificateRequest_err :: "error option"
  Scheme_New :: "string \<Rightarrow> error + RuntimeObject"
  Get_Issuer :: "NamespacedName \<Rightarrow> error + 'i"
  GetSpecAndStatus :: "'i \<Rightarrow> error + IssuerSpec \<times> 's"
  IsReady :: "'s \<Rightarrow> bool"
  Get_Secret :: "NamespacedName \<Rightarrow> error + (string \<rightharpoonup> string)"
  url_Parse :: "string \<Rightarrow> error + url_URL"
  Requests_Get :: "string \<Rightarrow> error + HorizonRequest"
  Requests_DecentralizedEnroll :: "string \<Rightarrow> string \<Rightarrow> LabelElement list \<Rightarrow> error + HorizonRequest"
  Update_err :: "error option"
  Status_Update_err :: "error option"
  Clock_Now :: nat
  cmutil_Clock_Now :: "nat \<Rightarrow> nat"

text \<open>What a reconcile does to the world, in order.\<close>

datatype Event =
    Log_Info string
  | Log_Error error string
  | HorizonClient_Init url_URL string string
  | Call_Requests_Get string
  | Call_DecentralizedEnroll string string "LabelElement list"
  | Call_Update CertificateRequest
  | Call_Status_Update CertificateRequest

text \<open>
  The state one reconcile threads: the request in memory, the request as the
  object store holds it, the events so far and the number of readings taken from
  cmutil's clock.
\<close>

record state =
  obj :: CertificateRequest
  stored :: "CertificateRequest option"
  events :: "Event list"
  clock_reads :: nat

text \<open>How a function ends: it returns its result and error, or it panics.\<close>

datatype 'e exit = Return Result "'e option" | Panic

definition emit :: "Event \<Rightarrow> state \<Rightarrow> state" where
  "emit e s = s\<lparr>events := events s @ [e]\<rparr>"

text \<open>One call of \<open>cmutil.SetCertificateRequestCondition\<close>, which reads cmutil's clock.\<close>

definition set_Condition ::
  "('i, 's) CertificateRequestReconciler \<Rightarrow> string \<Rightarrow> string \<Rightarrow> string \<Rightarrow> string \<Rightarrow> state \<Rightarrow> state" where
  "set_Condition r conditionType status reason message s =
     s\<lparr>obj := SetCertificateRequestCondition (cmutil_Clock_Now r (clock_reads s)) (obj s)
                  conditionType status reason message,
       clock_reads := Suc (clock_reads s)\<rparr>"

text \<open>The closure \<open>setReadyCondition\<close>.\<close>

definition setReadyCondition ::
  "('i, 's) CertificateRequestReconciler \<Rightarrow> string \<Rightarrow> string \<Rightarrow> string \<Rightarrow> state \<Rightarrow> state" where
  "setReadyCondition r status reason message s =
     set_Condition r CertificateRequestConditionReady status reason message s"

text \<open>A byte string of a Secret as a Go string; a missing key reads as empty.\<close>

definition secret_Data :: "(string \<rightharpoonup> string) \<Rightarrow> string \<Rightarrow> string" where
  "secret_Data d k = (case d k of None \<Rightarrow> [] | Some v \<Rightarrow> v)"

section \<open>Reconcile\<close>

text \<open>Lines 221 to 243. The request has been submitted to Horizon: pull it.\<close>

definition Reconcile_pull ::
  "('i, 's) CertificateRequestReconciler \<Rightarrow> string \<Rightarrow> state \<Rightarrow> state \<times> error exit" where
  "Reconcile_pull r requestId s0 =
     (let s1 = emit (Log_Info (''Pulling request '' @ requestId)) s0;
          s2 = emit (Call_Requests_Get requestId) s1
      in case Requests_Get r requestId of
           Inl err \<Rightarrow> (s2, Return Result_zero (Some (Errorf_w_v errUnknownHorizon err)))
         | Inr request \<Rightarrow>
             if req_Status request = ''completed'' then
               (let s3 = set_Condition r CertificateRequestConditionApproved ConditionTrue
                           ''horizon.evertrust.io'' ''Request approved on Horizon'' s2;
                    s4 = s3\<lparr>obj := (obj s3)\<lparr>Status :=
                               (Status (obj s3))\<lparr>Certificate := req_Certificate request\<rparr>\<rparr>\<rparr>;
                    s5 = setReadyCondition r ConditionTrue CertificateRequestReasonIssued ''Signed'' s4
                in (s5, Return Result_zero None))
             else (s2, Return \<lparr>Requeue = True, RequeueAfter = time_Minute\<rparr> None))"

text \<open>
  Lines 244 to 266. Else, submit the request. The id is stored with
  \<open>certificateRequest.Annotations[requestIdAnnotation] = request.Id\<close>, which panics
  on a nil map. The object store is modelled from the spec ("store returned id in
  annotation, persist it immediately"): a successful \<open>Update\<close> stores the request
  as it is in memory, a failed one stores nothing.
\<close>

definition Reconcile_submit ::
  "('i, 's) CertificateRequestReconciler \<Rightarrow> IssuerSpec \<Rightarrow> NamespacedName \<Rightarrow> state \<Rightarrow> state \<times> error exit" where
  "Reconcile_submit r issuerSpec secretName s0 =
     (let s1 = emit (Call_DecentralizedEnroll (Profile issuerSpec) (Request (Spec (obj s0))) []) s0
      in case Requests_DecentralizedEnroll r (Profile issuerSpec) (Request (Spec (obj s0))) [] of
           Inl err \<Rightarrow> (s1, Return Result_zero (Some (Errorf_w_v errUnknownHorizon err)))
         | Inr request \<Rightarrow>
             (case Annotations (obj s1) of
                None \<Rightarrow> (s1, Panic)
              | Some m \<Rightarrow>
                  (let s2 = s1\<lparr>obj := (obj s1)\<lparr>Annotations :=
                                  Some (m(requestIdAnnotation \<mapsto> req_Id request))\<rparr>\<rparr>;
                       s3 = emit (Call_Update (obj s2)) s2
                   in case Update_err r of
                        Some err \<Rightarrow>
                          (s3, Return Result_zero (Some (Errorf_secret errGetAuthSecret secretName err)))
                      | None \<Rightarrow>
                          (let s4 = s3\<lparr>stored := Some (obj s3)\<rparr>;
                               s5 = setReadyCondition r ConditionFalse CertificateRequestReasonPending
                                      ''Submitted request to Horizon'' s4
                           in (s5, Return \<lparr>Requeue = True, RequeueAfter = time_Minute\<rparr> None)))))"

text \<open>
  Lines 210 to 269. From the issuer found ready and its secret: the Horizon client
  is initialised, and a request not approved is pulled or submitted.
\<close>

definition Reconcile_sign ::
  "('i, 's) CertificateRequestReconciler \<Rightarrow> IssuerSpec \<Rightarrow> NamespacedName \<Rightarrow> (string \<rightharpoonup> string) \<Rightarrow> state
     \<Rightarrow> state \<times> error exit" where
  "Reconcile_sign r issuerSpec secretName secret s0 =
     (case url_Parse r (URL issuerSpec) of
        Inl err \<Rightarrow> (s0, Return Result_zero (Some (Errorf_w_v errInvalidBaseUrl err)))
      | Inr baseUrl \<Rightarrow>
          (let s1 = emit (HorizonClient_Init baseUrl (secret_Data secret ''username'')
                            (secret_Data secret ''password'')) s0
           in if \<not> CertificateRequestIsApproved (obj s1) then
                (case annotation (obj s1) requestIdAnnotation of
                   Some requestId \<Rightarrow> Reconcile_pull r requestId s1
                 | None \<Rightarrow> Reconcile_submit r issuerSpec secretName s1)
              else (s1, Return Result_zero None)))"

text \<open>
  Lines 162 to 208, for the \<open>Issuer\<close> type. Get the Issuer, its spec and status, and
  the secret with its credentials.
\<close>

definition Reconcile_issuer :: "('i, 's) CertificateRequestReconciler \<Rightarrow> state \<Rightarrow> state \<times> error exit" where
  "Reconcile_issuer r s0 =
     (let issuerName = \<lparr>nn_Namespace = Namespace (obj s0),
                         nn_Name = Name (IssuerRef (Spec (obj s0)))\<rparr>;
          secretNamespace = Namespace (obj s0)
      in case Get_Issuer r issuerName of
           Inl err \<Rightarrow> (s0, Return Result_zero (Some (Errorf_w_v errGetIssuer err)))
         | Inr issuer \<Rightarrow>
             (case GetSpecAndStatus r issuer of
                Inl err \<Rightarrow>
                  (let s1 = emit (Log_Error err ''Unable to get the IssuerStatus. Ignoring.'') s0;
                       s2 = setReadyCondition r ConditionFalse CertificateRequestReasonFailed (Error err) s1
                   in (s2, Return Result_zero None))
              | Inr (issuerSpec, issuerStatus) \<Rightarrow>
                  if \<not> IsReady r issuerStatus then (s0, Return Result_zero (Some errIssuerNotReady))
                  else
                    (let secretName = \<lparr>nn_Namespace = secretNamespace,
                                        nn_Name = AuthSecretName issuerSpec\<rparr>
                     in case Get_Secret r secretName of
                          Inl err \<Rightarrow>
                            (s0, Return Result_zero (Some (Errorf_secret errGetAuthSecret secretName err)))
                        | Inr secret \<Rightarrow> Reconcile_sign r issuerSpec secretName secret s0)))"

text \<open>
  Lines 137 to 180: the body of \<open>Reconcile\<close> after the deferred function is
  registered. At both panics the named result \<open>err\<close> is nil, \<open>Scheme.New\<close> and
  \<open>url.Parse\<close> having assigned it last.
\<close>

definition Reconcile_body :: "('i, 's) CertificateRequestReconciler \<Rightarrow> state \<Rightarrow> state \<times> error exit" where
  "Reconcile_body r s0 =
     (if CertificateRequestIsDenied (obj s0) then
        (let s1 = emit (Log_Info ''CertificateRequest has been denied yet. Marking as failed.'') s0;
             s2 = (if FailureTime (Status (obj s1)) = None
                   then s1\<lparr>obj := (obj s1)\<lparr>Status :=
                              (Status (obj s1))\<lparr>FailureTime := Some (Clock_Now r)\<rparr>\<rparr>\<rparr>
                   else s1);
             s3 = setReadyCondition r ConditionFalse CertificateRequestReasonDenied
                    ''The CertificateRequest was denied by an approval controller'' s2
         in (s3, Return Result_zero None))
      else
        (case Scheme_New r (Kind (IssuerRef (Spec (obj s0)))) of
           Inl err0 \<Rightarrow>
             (let err = Errorf_w_v errIssuerRef err0;
                  s1 = emit (Log_Error err ''Unrecognised kind. Ignoring.'') s0;
                  s2 = setReadyCondition r ConditionFalse CertificateRequestReasonFailed (Error err) s1
              in (s2, Return Result_zero None))
         | Inr NotClientObject \<Rightarrow> (s0, Panic)
         | Inr (OtherObject t) \<Rightarrow>
             (let err = New (''unexpected issuer type: '' @ t);
                  s1 = emit (Log_Error err
                         ''The issuerRef referred to a registered Kind which is not yet handled. Ignoring.'') s0;
                  s2 = setReadyCondition r ConditionFalse CertificateRequestReasonFailed (Error err) s1
              in (s2, Return Result_zero None))
         | Inr IssuerObject \<Rightarrow> Reconcile_issuer r s0))"

text \<open>What one reconcile leaves: how it ended, the object store and the events.\<close>

record Run =
  exit :: "returned exit"
  store :: "CertificateRequest option"
  trace :: "Event list"

text \<open>
  Lines 126 to 135: the deferred function. It runs when the body returns and when
  it panics (the panic then goes on). The object store is modelled from the spec:
  a successful update of the status sub-resource stores the status of the request
  in memory and nothing else, a failed one stores nothing.
\<close>

definition Reconcile_deferred :: "('i, 's) CertificateRequestReconciler \<Rightarrow> state \<times> error exit \<Rightarrow> Run" where
  "Reconcile_deferred r x =
     (case x of (s0, ex) \<Rightarrow>
        (let err = (case ex of Return res e \<Rightarrow> e | Panic \<Rightarrow> None);
             s1 = (case err of
                     Some e \<Rightarrow> setReadyCondition r ConditionFalse CertificateRequestReasonPending (Error e) s0
                   | None \<Rightarrow> s0);
             s2 = emit (Call_Status_Update (obj s1)) s1
         in case Status_Update_err r of
              Some updateErr \<Rightarrow>
                \<lparr>exit = (case ex of
                           Return res e \<Rightarrow> Return Result_zero (NewAggregate [err, Some updateErr])
                         | Panic \<Rightarrow> Panic),
                 store = stored s2, trace = events s2\<rparr>
            | None \<Rightarrow>
                \<lparr>exit = (case ex of Return res e \<Rightarrow> Return res (map_option Plain e) | Panic \<Rightarrow> Panic),
                 store = map_option (\<lambda>old. old\<lparr>Status := Status (obj s2)\<rparr>) (stored s2),
                 trace = events s2\<rparr>))"

text \<open>The four conditions \<open>Reconcile\<close> looks for before it takes the request on.\<close>

abbreviation Ready_True :: CertificateRequestCondition where
  "Ready_True \<equiv> \<lparr>Type = CertificateRequestConditionReady, cond_Status = ConditionTrue,
                  LastTransitionTime = None, Reason = [], Message = []\<rparr>"
abbreviation Ready_Failed :: CertificateRequestCondition where
  "Ready_Failed \<equiv> \<lparr>Type = CertificateRequestConditionReady, cond_Status = ConditionFalse,
                    LastTransitionTime = None, Reason = CertificateRequestReasonFailed, Message = []\<rparr>"
abbreviation Ready_Denied :: CertificateRequestCondition where
  "Ready_Denied \<equiv> \<lparr>Type = CertificateRequestConditionReady, cond_Status = ConditionFalse,
                    LastTransitionTime = None, Reason = CertificateRequestReasonDenied, Message = []\<rparr>"

text \<open>
  \<open>Reconcile\<close> (lines 68 to 112, then the body under the deferred function), on
  the request the object store holds under the reconciled name (\<open>None\<close>: there is
  none). The key-value pairs of the log lines are left out.
\<close>

definition Reconcile :: "('i, 's) CertificateRequestReconciler \<Rightarrow> CertificateRequest option \<Rightarrow> Run" where
  "Reconcile r w =
     (case Get_CertificateRequest_err r of
        Some err \<Rightarrow>
          \<lparr>exit = Return Result_zero (Some (Plain (New (''unexpected get error: '' @ Error err)))),
           store = w, trace = []\<rparr>
      | None \<Rightarrow>
          (case w of
             None \<Rightarrow> \<lparr>exit = Return Result_zero None, store = w, trace = [Log_Info ''Not found. Ignoring.'']\<rparr>
           | Some certificateRequest \<Rightarrow>
               if Group (IssuerRef (Spec certificateRequest)) \<noteq> GroupVersion_Group r then
                 \<lparr>exit = Return Result_zero None, store = w, trace = [Log_Info ''Foreign group. Ignoring.'']\<rparr>
               else if CertificateRequestHasCondition certificateRequest Ready_True then
                 \<lparr>exit = Return Result_zero None, store = w,
                  trace = [Log_Info ''CertificateRequest is Ready. Ignoring.'']\<rparr>
               else if CertificateRequestHasCondition certificateRequest Ready_Failed then
                 \<lparr>exit = Return Result_zero None, store = w,
                  trace = [Log_Info ''CertificateRequest is Failed. Ignoring.'']\<rparr>
               else if CertificateRequestHasCondition certificateRequest Ready_Denied then
                 \<lparr>exit = Return Result_zero None, store = w,
                  trace = [Log_Info
                    ''CertificateRequest already has a Ready condition with Denied Reason. Ignoring.'']\<rparr>
               else
                 Reconcile_deferred r
                   (Reconcile_body r
                      \<lparr>obj = certificateRequest, stored = w, events = [], clock_reads = 0\<rparr>)))"

text \<open>Successive reconciles of one request, each with the collaborators as they then answer.\<close>

fun Reconciles :: "('i, 's) CertificateRequestReconciler list \<Rightarrow> CertificateRequest option \<Rightarrow> Run list" where
  "Reconciles [] w = []"
| "Reconciles (r # rs) w = Reconcile r w # Reconciles rs (store (Reconcile r w))"

section \<open>Where a reconcile gets to\<close>

text \<open>
  \<open>Reconcile\<close> got the request and passed its four "Ignoring" returns (lines 73 to
  112): the deferred function is registered and the body runs.
\<close>

definition takes_on :: "('i, 's) CertificateRequestReconciler \<Rightarrow> CertificateRequest \<Rightarrow> bool" where
  "takes_on r cr \<longleftrightarrow>
     Get_CertificateRequest_err r = None
     \<and> Group (IssuerRef (Spec cr)) = GroupVersion_Group r
     \<and> \<not> CertificateRequestHasCondition cr Ready_True
     \<and> \<not> CertificateRequestHasCondition cr Ready_Failed
     \<and> \<not> CertificateRequestHasCondition cr Ready_Denied"

text \<open>
  The body got from the denial check to \<open>url.Parse\<close> (lines 139 to 208): the
  request is not denied, its kind is the \<open>Issuer\<close> type, the issuer was fetched
  and is ready, and its secret was fetched.
\<close>

definition resolves ::
  "('i, 's) CertificateRequestReconciler \<Rightarrow> CertificateRequest \<Rightarrow> 'i \<Rightarrow> IssuerSpec \<Rightarrow> 's \<Rightarrow> (string \<rightharpoonup> string) \<Rightarrow> bool"
where
  "resolves r cr issuer issuerSpec issuerStatus secret \<longleftrightarrow>
     \<not> CertificateRequestIsDenied cr
     \<and> Scheme_New r (Kind (IssuerRef (Spec cr))) = Inr IssuerObject
     \<and> Get_Issuer r \<lparr>nn_Namespace = Namespace cr, nn_Name = Name (IssuerRef (Spec cr))\<rparr> = Inr issuer
     \<and> GetSpecAndStatus r issuer = Inr (issuerSpec, issuerStatus)
     \<and> IsReady r issuerStatus
     \<and> Get_Secret r \<lparr>nn_Namespace = Namespace cr, nn_Name = AuthSecretName issuerSpec\<rparr> = Inr secret"

text \<open>The Ready condition of a request: its first condition of that type.\<close>

definition Ready_condition :: "CertificateRequest \<Rightarrow> CertificateRequestCondition option" where
  "Ready_condition cr =
     List.find (\<lambda>c. Type c = CertificateRequestConditionReady) (Conditions (Status cr))"

section \<open>The scenario of the specification\<close>

text \<open>
  Issuer \<open>iss1\<close> with its secret \<open>cred\<close>, a Horizon service that answers the
  enrollment with request \<open>req-42\<close>, and a scheme that knows the kinds \<open>Issuer\<close> and
  \<open>ClusterIssuer\<close>, the second not handled.
\<close>

definition iss1 :: IssuerSpec where
  "iss1 = \<lparr>URL = ''https://pki.example'', Profile = ''webserver'', AuthSecretName = ''cred''\<rparr>"

definition cred :: "string \<rightharpoonup> string" where
  "cred = [''username'' \<mapsto> ''admin'', ''password'' \<mapsto> ''secret'']"

definition req_42 :: "string \<Rightarrow> string \<Rightarrow> HorizonRequest" where
  "req_42 status certificate = \<lparr>req_Id = ''req-42'', req_Status = status, req_Certificate = certificate\<rparr>"

definition r_pending :: "(unit, unit) CertificateRequestReconciler" where
  "r_pending =
     \<lparr>GroupVersion_Group = ''horizon.k8s.evertrust.io'',
      Get_CertificateRequest_err = None,
      Scheme_New = (\<lambda>kind. if kind = ''Issuer'' then Inr IssuerObject
                            else if kind = ''ClusterIssuer'' then Inr (OtherObject ''&{}'')
                            else Inl (New ''no kind is registered'')),
      Get_Issuer = (\<lambda>n. if n = \<lparr>nn_Namespace = ''default'', nn_Name = ''iss1''\<rparr> then Inr ()
                         else Inl (New ''not found'')),
      GetSpecAndStatus = (\<lambda>issuer. Inr (iss1, ())),
      IsReady = (\<lambda>status. True),
      Get_Secret = (\<lambda>n. if n = \<lparr>nn_Namespace = ''default'', nn_Name = ''cred''\<rparr> then Inr cred
                         else Inl (New ''not found'')),
      url_Parse = (\<lambda>u. if u = ''https://pki.example'' then Inr (Parsed u) else Inl (New ''missing protocol scheme'')),
      Requests_Get = (\<lambda>i. if i = ''req-42'' then Inr (req_42 ''pending'' []) else Inl (New ''not found'')),
      Requests_DecentralizedEnroll = (\<lambda>profile csr labels. Inr (req_42 ''pending'' [])),
      Update_err = None,
      Status_Update_err = None,
      Clock_Now = 7,
      cmutil_Clock_Now = (\<lambda>k. 10 + k)\<rparr>"

definition r_completed :: "(unit, unit) CertificateRequestReconciler" where
  "r_completed = r_pending\<lparr>Requests_Get :=
     (\<lambda>i. if i = ''req-42'' then Inr (req_42 ''completed'' ''CERTDATA'') else Inl (New ''not found''))\<rparr>"

definition r_update_fails :: "(unit, unit) CertificateRequestReconciler" where
  "r_update_fails = r_pending\<lparr>Update_err := Some (New ''conflict'')\<rparr>"

definition r_persist_fails :: "(unit, unit) CertificateRequestReconciler" where
  "r_persist_fails = r_pending\<lparr>Status_Update_err := Some (New ''conflict'')\<rparr>"

definition r_get_fails :: "(unit, unit) CertificateRequestReconciler" where
  "r_get_fails = r_pending\<lparr>Get_CertificateRequest_err := Some (New ''timeout'')\<rparr>"

definition r_not_ready :: "(unit, unit) CertificateRequestReconciler" where
  "r_not_ready = r_pending\<lparr>IsReady := (\<lambda>status. False)\<rparr>"

definition r_bad_url :: "(unit, unit) CertificateRequestReconciler" where
  "r_bad_url = r_pending\<lparr>GetSpecAndStatus := (\<lambda>issuer. Inr (iss1\<lparr>URL := '':''\<rparr>, ()))\<rparr>"

text \<open>
  The new request, with an allocated annotation map and with none; the request
  once submitted; and requests of another kind, of another group, issued and
  denied.
\<close>

definition cr_new :: CertificateRequest where
  "cr_new =
     \<lparr>Namespace = ''default'', Annotations = Some Map.empty,
      Spec = \<lparr>IssuerRef = \<lparr>Name = ''iss1'', Kind = ''Issuer'', Group = ''horizon.k8s.evertrust.io''\<rparr>,
               Request = ''CSR''\<rparr>,
      Status = \<lparr>Conditions = [], Certificate = [], FailureTime = None\<rparr>\<rparr>"

definition cr_no_annotations :: CertificateRequest where
  "cr_no_annotations = cr_new\<lparr>Annotations := None\<rparr>"

definition cond_Pending :: CertificateRequestCondition where
  "cond_Pending = \<lparr>Type = CertificateRequestConditionReady, cond_Status = ConditionFalse,
                    LastTransitionTime = Some 10, Reason = CertificateRequestReasonPending,
                    Message = ''Submitted request to Horizon''\<rparr>"

definition cr_submitted :: CertificateRequest where
  "cr_submitted =
     cr_new\<lparr>Annotations := Some [requestIdAnnotation \<mapsto> ''req-42''],
            Status := \<lparr>Conditions = [cond_Pending], Certificate = [], FailureTime = None\<rparr>\<rparr>"

definition cr_issued :: CertificateRequest where
  "cr_issued =
     cr_submitted\<lparr>Status :=
       \<lparr>Conditions =
          [\<lparr>Type = CertificateRequestConditionReady, cond_Status = ConditionTrue,
            LastTransitionTime = Some 11, Reason = CertificateRequestReasonIssued, Message = ''Signed''\<rparr>,
           \<lparr>Type = CertificateRequestConditionApproved, cond_Status = ConditionTrue,
            LastTransitionTime = Some 10, Reason = ''horizon.evertrust.io'',
            Message = ''Request approved on Horizon''\<rparr>],
        Certificate = ''CERTDATA'', FailureTime = None\<rparr>\<rparr>"

definition cond_Denied :: CertificateRequestCondition where
  "cond_Denied = \<lparr>Type = CertificateRequestConditionDenied, cond_Status = ConditionTrue,
                   LastTransitionTime = Some 5, Reason = ''policy.cert-manager.io'',
                   Message = ''Denied by policy''\<rparr>"

definition cr_denied :: CertificateRequest where
  "cr_denied = cr_new\<lparr>Status := \<lparr>Conditions = [cond_Denied], Certificate = [], FailureTime = None\<rparr>\<rparr>"

definition cr_denied_before :: CertificateRequest where
  "cr_denied_before =
     cr_new\<lparr>Status := \<lparr>Conditions = [cond_Denied], Certificate = [], FailureTime = Some 3\<rparr>\<rparr>"

definition cond_Approved :: CertificateRequestCondition where
  "cond_Approved = \<lparr>Type = CertificateRequestConditionApproved, cond_Status = ConditionTrue,
                     LastTransitionTime = Some 8, Reason = ''cert-manager.io'',
                     Message = ''Certificate request has been approved by cert-manager.io''\<rparr>"

definition cr_approved :: CertificateRequest where
  "cr_approved =
     cr_submitted\<lparr>Status := \<lparr>Conditions = [cond_Pending, cond_Approved], Certificate = [],
                              FailureTime = None\<rparr>\<rparr>"

definition cond_Failed :: CertificateRequestCondition where
  "cond_Failed = \<lparr>Type = CertificateRequestConditionReady, cond_Status = ConditionFalse,
                   LastTransitionTime = Some 4, Reason = CertificateRequestReasonFailed,
                   Message = ''error interpreting issuerRef: no kind is registered''\<rparr>"

definition cr_failed_denied :: CertificateRequest where
  "cr_failed_denied =
     cr_new\<lparr>Status := \<lparr>Conditions = [cond_Failed, cond_Denied], Certificate = [], FailureTime = None\<rparr>\<rparr>"

definition cr_foreign :: CertificateRequest where
  "cr_foreign = cr_new\<lparr>Spec := \<lparr>IssuerRef = \<lparr>Name = ''ca'', Kind = ''Issuer'', Group = ''cert-manager.io''\<rparr>,
                                  Request = ''CSR''\<rparr>\<rparr>"

definition cr_unknown_kind :: CertificateRequest where
  "cr_unknown_kind =
     cr_new\<lparr>Spec := \<lparr>IssuerRef = \<lparr>Name = ''iss1'', Kind = ''Isuer'', Group = ''horizon.k8s.evertrust.io''\<rparr>,
                      Request = ''CSR''\<rparr>\<rparr>"

definition cr_denied_unknown_kind :: CertificateRequest where
  "cr_denied_unknown_kind =
     cr_unknown_kind\<lparr>Status := \<lparr>Conditions = [cond_Denied], Certificate = [], FailureTime = None\<rparr>\<rparr>"

definition cr_cluster_issuer :: CertificateRequest where
  "cr_cluster_issuer =
     cr_new\<lparr>Spec := \<lparr>IssuerRef = \<lparr>Name = ''iss1'', Kind = ''ClusterIssuer'',
                                   Group = ''horizon.k8s.evertrust.io''\<rparr>,
                      Request = ''CSR''\<rparr>\<rparr>"

section \<open>Evaluating the model\<close>

lemmas scenario_defs = iss1_def cred_def req_42_def r_pending_def r_completed_def r_update_fails_def
  r_persist_fails_def r_not_ready_def r_bad_url_def cr_new_def cr_no_annotations_def cond_Pending_def
  cr_submitted_def cr_issued_def cond_Denied_def cr_denied_def cr_denied_before_def cr_foreign_def
  cr_unknown_kind_def cr_cluster_issuer_def cond_Approved_def cr_approved_def cond_Failed_def
  cr_failed_denied_def r_get_fails_def cr_denied_unknown_kind_def

lemmas Reconcile_defs = Reconcile_def Reconcile_deferred_def Reconcile_body_def Reconcile_issuer_def
  Reconcile_sign_def Reconcile_submit_def Reconcile_pull_def emit_def setReadyCondition_def
  set_Condition_def SetCertificateRequestCondition_def CertificateRequestHasCondition_def
  CertificateRequestIsDenied_def CertificateRequestIsApproved_def annotation_def secret_Data_def
  Errorf_w_v_def Errorf_secret_def NamespacedName_String_def NewAggregate_def List.map_filter_def
  takes_on_def resolves_def Ready_condition_def

section \<open>What the helpers keep and change\<close>

lemma emit_simps [simp]:
  "obj (emit e s) = obj s" "stored (emit e s) = stored s"
  "events (emit e s) = events s @ [e]" "clock_reads (emit e s) = clock_reads s"
  by (simp_all add: emit_def)

lemma set_Condition_frame [simp]:
  "stored (set_Condition r t st re m s) = stored s"
  "events (set_Condition r t st re m s) = events s"
  "Annotations (obj (set_Condition r t st re m s)) = Annotations (obj s)"
  "Namespace (obj (set_Condition r t st re m s)) = Namespace (obj s)"
  "Spec (obj (set_Condition r t st re m s)) = Spec (obj s)"
  "FailureTime (Status (obj (set_Condition r t st re m s))) = FailureTime (Status (obj s))"
  "Certificate (Status (obj (set_Condition r t st re m s))) = Certificate (Status (obj s))"
  by (simp_all add: set_Condition_def SetCertificateRequestCondition_def)

lemma setReadyCondition_frame [simp]:
  "stored (setReadyCondition r st re m s) = stored s"
  "events (setReadyCondition r st re m s) = events s"
  "Annotations (obj (setReadyCondition r st re m s)) = Annotations (obj s)"
  "Namespace (obj (setReadyCondition r st re m s)) = Namespace (obj s)"
  "Spec (obj (setReadyCondition r st re m s)) = Spec (obj s)"
  "FailureTime (Status (obj (setReadyCondition r st re m s))) = FailureTime (Status (obj s))"
  "Certificate (Status (obj (setReadyCondition r st re m s))) = Certificate (Status (obj s))"
  by (simp_all add: setReadyCondition_def)

lemma set_condition_has:
  "ty = Type new \<Longrightarrow> st = cond_Status new \<Longrightarrow> re = [] \<or> re = Reason new \<Longrightarrow>
   list_ex (\<lambda>cond. ty = Type cond \<and> st = cond_Status cond \<and> (re = [] \<or> re = Reason cond))
     (set_condition new conds)"
  by (induction conds) auto

lemma set_condition_find:
  "\<exists>c. List.find (\<lambda>c. Type c = Type new) (set_condition new conds) = Some c
       \<and> Type c = Type new \<and> cond_Status c = cond_Status new \<and> Reason c = Reason new
       \<and> Message c = Message new"
  by (induction conds) auto

lemma setReadyCondition_has:
  "Type c = CertificateRequestConditionReady \<Longrightarrow> cond_Status c = st \<Longrightarrow> Reason c = [] \<or> Reason c = re \<Longrightarrow>
   CertificateRequestHasCondition (obj (setReadyCondition r st re m s)) c"
  unfolding CertificateRequestHasCondition_def setReadyCondition_def set_Condition_def
    SetCertificateRequestCondition_def
  by (simp, rule set_condition_has) auto

lemma setReadyCondition_Ready:
  "\<exists>c. Ready_condition (obj (setReadyCondition r st re m s)) = Some c
       \<and> cond_Status c = st \<and> Reason c = re \<and> Message c = m"
  using set_condition_find [of "\<lparr>Type = CertificateRequestConditionReady, cond_Status = st,
      LastTransitionTime = Some (cmutil_Clock_Now r (clock_reads s)), Reason = re, Message = m\<rparr>"
      "Conditions (Status (obj s))"]
  by (auto simp: Ready_condition_def setReadyCondition_def set_Condition_def
      SetCertificateRequestCondition_def)

section \<open>The early returns and the deferred update\<close>

lemma Reconcile_taken:
  "takes_on r cr \<Longrightarrow>
   Reconcile r (Some cr) =
   Reconcile_deferred r (Reconcile_body r \<lparr>obj = cr, stored = Some cr, events = [], clock_reads = 0\<rparr>)"
  by (simp add: Reconcile_def takes_on_def)

lemma Reconcile_ignored:
  assumes "Get_CertificateRequest_err r = None" and "\<not> takes_on r cr"
  shows "exit (Reconcile r (Some cr)) = Return Result_zero None"
    and "store (Reconcile r (Some cr)) = Some cr"
    and "\<exists>msg. trace (Reconcile r (Some cr)) = [Log_Info msg]"
  using assms by (auto simp: Reconcile_def takes_on_def)

text \<open>No part of the body updates the status sub-resource.\<close>

lemma pull_no_Status_Update:
  "Call_Status_Update x \<in> set (events (fst (Reconcile_pull r i s))) \<Longrightarrow>
   Call_Status_Update x \<in> set (events s)"
  by (auto simp: Reconcile_pull_def Let_def split: sum.splits if_splits)

lemma submit_no_Status_Update:
  "Call_Status_Update x \<in> set (events (fst (Reconcile_submit r sp n s))) \<Longrightarrow>
   Call_Status_Update x \<in> set (events s)"
  by (auto simp: Reconcile_submit_def Let_def split: sum.splits option.splits if_splits)

lemma sign_no_Status_Update:
  "Call_Status_Update x \<in> set (events (fst (Reconcile_sign r sp n d s))) \<Longrightarrow>
   Call_Status_Update x \<in> set (events s)"
  by (auto simp: Reconcile_sign_def Let_def split: sum.splits option.splits if_splits
      dest!: pull_no_Status_Update submit_no_Status_Update)

lemma issuer_no_Status_Update:
  "Call_Status_Update x \<in> set (events (fst (Reconcile_issuer r s))) \<Longrightarrow>
   Call_Status_Update x \<in> set (events s)"
  by (auto simp: Reconcile_issuer_def Let_def split: sum.splits option.splits if_splits prod.splits
      dest!: sign_no_Status_Update)

lemma body_no_Status_Update:
  "Call_Status_Update x \<in> set (events (fst (Reconcile_body r s))) \<Longrightarrow>
   Call_Status_Update x \<in> set (events s)"
  by (auto simp: Reconcile_body_def Let_def split: sum.splits option.splits if_splits RuntimeObject.splits
      dest!: issuer_no_Status_Update)

lemma deferred_trace:
  "\<exists>cr'. trace (Reconcile_deferred r (s, ex)) = events s @ [Call_Status_Update cr']"
  by (auto simp: Reconcile_deferred_def Let_def split: option.splits)

section \<open>Lemmas for the claims\<close>

lemma Reconcile_body_resolved:
  assumes "resolves r (obj s) issuer issuerSpec issuerStatus secret"
  shows "Reconcile_body r s =
         Reconcile_sign r issuerSpec
           \<lparr>nn_Namespace = Namespace (obj s), nn_Name = AuthSecretName issuerSpec\<rparr> secret s"
  using assms by (simp add: resolves_def Reconcile_body_def Reconcile_issuer_def)

lemma deferred_no_error:
  "trace (Reconcile_deferred r (s, Return res None)) = events s @ [Call_Status_Update (obj s)]"
  "Status_Update_err r = None \<Longrightarrow> exit (Reconcile_deferred r (s, Return res None)) = Return res None"
  "Status_Update_err r = None \<Longrightarrow>
     store (Reconcile_deferred r (s, Return res None))
     = map_option (\<lambda>old. old\<lparr>Status := Status (obj s)\<rparr>) (stored s)"
  "Status_Update_err r = Some updateErr \<Longrightarrow>
     exit (Reconcile_deferred r (s, Return res None)) = Return Result_zero (Some (Aggregate [updateErr]))"
  "Status_Update_err r = Some updateErr \<Longrightarrow>
     store (Reconcile_deferred r (s, Return res None)) = stored s"
  "exit (Reconcile_deferred r (s, Return Result_zero None)) =
     Return Result_zero
       (case Status_Update_err r of None \<Rightarrow> None | Some updateErr \<Rightarrow> Some (Aggregate [updateErr]))"
  by (simp_all add: Reconcile_deferred_def Let_def NewAggregate_def List.map_filter_def split: option.splits)

lemma deferred_error:
  "trace (Reconcile_deferred r (s, Return res (Some e))) =
     events s @ [Call_Status_Update
       (obj (setReadyCondition r ConditionFalse CertificateRequestReasonPending (Error e) s))]"
  "exit (Reconcile_deferred r (s, Return res (Some e))) =
     (case Status_Update_err r of
        None \<Rightarrow> Return res (Some (Plain e))
      | Some updateErr \<Rightarrow> Return Result_zero (Some (Aggregate [e, updateErr])))"
  "store (Reconcile_deferred r (s, Return res (Some e))) =
     (case Status_Update_err r of
        None \<Rightarrow> map_option (\<lambda>old. old\<lparr>Status := Status
          (obj (setReadyCondition r ConditionFalse CertificateRequestReasonPending (Error e) s))\<rparr>) (stored s)
      | Some updateErr \<Rightarrow> stored s)"
  by (simp_all add: Reconcile_deferred_def Let_def NewAggregate_def List.map_filter_def split: option.splits)

lemma deferred_panic:
  "exit (Reconcile_deferred r (s, Panic)) = Panic"
  "trace (Reconcile_deferred r (s, Panic)) = events s @ [Call_Status_Update (obj s)]"
  by (simp_all add: Reconcile_deferred_def Let_def split: option.splits)

lemma deferred_exit_Panic:
  "exit (Reconcile_deferred r (s, ex)) = Panic \<longleftrightarrow> ex = Panic"
  by (cases ex) (auto simp: Reconcile_deferred_def Let_def split: option.splits)

lemma ignored_later:
  fixes r' :: "('i, 's) CertificateRequestReconciler"
  assumes "CertificateRequestHasCondition cr Ready_Failed" and "Get_CertificateRequest_err r' = None"
  shows "exit (Reconcile r' (Some cr)) = Return Result_zero None
         \<and> (\<exists>msg. trace (Reconcile r' (Some cr)) = [Log_Info msg])"
proof -
  have "\<not> takes_on r' cr" using assms(1) by (simp add: takes_on_def)
  with assms(2) Reconcile_ignored(1,3) [of r' cr] show ?thesis by simp
qed

lemma setReadyCondition_obj:
  "(obj s)\<lparr>Status := Status (obj (setReadyCondition r st re m s))\<rparr> = obj (setReadyCondition r st re m s)"
  by (simp add: setReadyCondition_def set_Condition_def SetCertificateRequestCondition_def)

lemma absorbed_Failed:
  fixes r :: "('i, 's) CertificateRequestReconciler"
  assumes "takes_on r cr"
    and "Reconcile_body r \<lparr>obj = cr, stored = Some cr, events = [], clock_reads = 0\<rparr>
         = (setReadyCondition r ConditionFalse CertificateRequestReasonFailed m s1, Return Result_zero None)"
    and "stored s1 = Some cr" and "obj s1 = cr"
  shows "\<exists>cr'. trace (Reconcile r (Some cr)) = events s1 @ [Call_Status_Update cr']
             \<and> CertificateRequestHasCondition cr' Ready_Failed
             \<and> exit (Reconcile r (Some cr)) =
                 Return Result_zero
                   (case Status_Update_err r of
                      None \<Rightarrow> None
                    | Some updateErr \<Rightarrow> Some (Aggregate [updateErr]))
             \<and> (Status_Update_err r = None \<longrightarrow>
                  store (Reconcile r (Some cr)) = Some cr'
                  \<and> (\<forall>r' :: ('i, 's) CertificateRequestReconciler. Get_CertificateRequest_err r' = None \<longrightarrow>
                       exit (Reconcile r' (Some cr')) = Return Result_zero None
                       \<and> (\<exists>msg. trace (Reconcile r' (Some cr')) = [Log_Info msg])))"
proof -
  define s2 where "s2 = setReadyCondition r ConditionFalse CertificateRequestReasonFailed m s1"
  have R: "Reconcile r (Some cr) = Reconcile_deferred r (s2, Return Result_zero None)"
    using assms(1,2) by (simp add: Reconcile_taken s2_def)
  have has: "CertificateRequestHasCondition (obj s2) Ready_Failed"
    unfolding s2_def by (rule setReadyCondition_has) simp_all
  have ev: "events s2 = events s1" and st2: "stored s2 = Some cr"
    by (simp_all add: s2_def assms(3))
  have same: "cr\<lparr>Status := Status (obj s2)\<rparr> = obj s2"
    unfolding s2_def assms(4) [symmetric] by (rule setReadyCondition_obj)
  have tr: "trace (Reconcile r (Some cr)) = events s1 @ [Call_Status_Update (obj s2)]"
    by (simp add: R deferred_no_error(1) ev)
  have ex: "exit (Reconcile r (Some cr)) =
              Return Result_zero
                (case Status_Update_err r of None \<Rightarrow> None | Some updateErr \<Rightarrow> Some (Aggregate [updateErr]))"
    unfolding R by (rule deferred_no_error(6))
  have st: "store (Reconcile r (Some cr)) = Some (obj s2)" if "Status_Update_err r = None"
    using that same by (simp add: R deferred_no_error(3) st2)
  have later: "\<forall>r' :: ('i, 's) CertificateRequestReconciler. Get_CertificateRequest_err r' = None \<longrightarrow>
                  exit (Reconcile r' (Some (obj s2))) = Return Result_zero None
                  \<and> (\<exists>msg. trace (Reconcile r' (Some (obj s2))) = [Log_Info msg])"
    using ignored_later [OF has] by blast
  show ?thesis
  proof (intro exI [of _ "obj s2"] conjI impI)
    show "trace (Reconcile r (Some cr)) = events s1 @ [Call_Status_Update (obj s2)]" by (rule tr)
    show "CertificateRequestHasCondition (obj s2) Ready_Failed" by (rule has)
    show "exit (Reconcile r (Some cr)) =
              Return Result_zero
                (case Status_Update_err r of None \<Rightarrow> None | Some updateErr \<Rightarrow> Some (Aggregate [updateErr]))"
      by (rule ex)
  next
    assume "Status_Update_err r = None"
    then show "store (Reconcile r (Some cr)) = Some (obj s2)" by (rule st)
  next
    show "\<forall>r' :: ('i, 's) CertificateRequestReconciler. Get_CertificateRequest_err r' = None \<longrightarrow>
                  exit (Reconcile r' (Some (obj s2))) = Return Result_zero None
                  \<and> (\<exists>msg. trace (Reconcile r' (Some (obj s2))) = [Log_Info msg])"
      by (rule later)
  qed
qed

lemma set_condition_list_ex:
  "list_ex P (set_condition new conds) \<Longrightarrow>
   list_ex P conds \<or> P new \<or> (\<exists>l. P (new\<lparr>LastTransitionTime := l\<rparr>))"
  by (induction conds) (auto split: if_splits)

lemma takes_on_Pending:
  assumes "takes_on r cr" and "obj s = cr"
  shows "takes_on r (cr\<lparr>Status := Status
           (obj (setReadyCondition r ConditionFalse CertificateRequestReasonPending m s))\<rparr>)"
  using assms
  unfolding takes_on_def CertificateRequestHasCondition_def setReadyCondition_def set_Condition_def
    SetCertificateRequestCondition_def
  by (auto dest!: set_condition_list_ex)

lemma Reconcile_resolved:
  assumes "takes_on r cr" and "resolves r cr issuer issuerSpec issuerStatus secret"
  shows "Reconcile r (Some cr) =
         Reconcile_deferred r
           (Reconcile_sign r issuerSpec
              \<lparr>nn_Namespace = Namespace cr, nn_Name = AuthSecretName issuerSpec\<rparr> secret
              \<lparr>obj = cr, stored = Some cr, events = [], clock_reads = 0\<rparr>)"
  using assms Reconcile_body_resolved [of r "\<lparr>obj = cr, stored = Some cr, events = [], clock_reads = 0\<rparr>"]
  by (simp add: Reconcile_taken)

text \<open>Where the body can panic.\<close>

lemma pull_no_Panic: "snd (Reconcile_pull r i s) \<noteq> Panic"
  by (simp add: Reconcile_pull_def Let_def split: sum.splits)

lemma submit_Panic: "snd (Reconcile_submit r sp n s) = Panic \<Longrightarrow> Annotations (obj s) = None"
  by (auto simp: Reconcile_submit_def Let_def split: sum.splits option.splits)

lemma sign_Panic: "snd (Reconcile_sign r sp n d s) = Panic \<Longrightarrow> Annotations (obj s) = None"
  using pull_no_Panic submit_Panic [of r sp n "emit e s" for e]
  by (auto simp: Reconcile_sign_def Let_def split: sum.splits option.splits if_splits)

lemma issuer_Panic: "snd (Reconcile_issuer r s) = Panic \<Longrightarrow> Annotations (obj s) = None"
  using sign_Panic
  by (auto simp: Reconcile_issuer_def Let_def split: sum.splits option.splits if_splits prod.splits)

lemma body_Panic:
  "snd (Reconcile_body r s) = Panic \<Longrightarrow>
   Annotations (obj s) = None \<or> Scheme_New r (Kind (IssuerRef (Spec (obj s)))) = Inr NotClientObject"
  using issuer_Panic
  by (auto simp: Reconcile_body_def Let_def split: sum.splits if_splits RuntimeObject.splits)

lemma Reconcile_Panic:
  assumes "exit (Reconcile r (Some cr)) = Panic"
  shows "Annotations cr = None \<or> Scheme_New r (Kind (IssuerRef (Spec cr))) = Inr NotClientObject"
proof -
  let ?s0 = "\<lparr>obj = cr, stored = Some cr, events = [], clock_reads = 0\<rparr>"
  have t: "takes_on r cr"
    using assms by (auto simp: Reconcile_def takes_on_def split: option.splits if_splits)
  obtain s ex where b: "Reconcile_body r ?s0 = (s, ex)" by (cases "Reconcile_body r ?s0")
  with t assms have "ex = Panic" by (simp add: Reconcile_taken deferred_exit_Panic)
  with b body_Panic [of r ?s0] show ?thesis by simp
qed

lemma pending_poll:
  assumes "takes_on r cr"
    and "resolves r cr issuer issuerSpec issuerStatus secret"
    and "url_Parse r (URL issuerSpec) = Inr baseUrl"
    and "\<not> CertificateRequestIsApproved cr"
    and "annotation cr requestIdAnnotation = Some requestId"
    and "Requests_Get r requestId = Inr request"
    and "req_Status request \<noteq> ''completed''"
  shows "trace (Reconcile r (Some cr)) =
           [HorizonClient_Init baseUrl (secret_Data secret ''username'') (secret_Data secret ''password''),
            Log_Info (''Pulling request '' @ requestId),
            Call_Requests_Get requestId,
            Call_Status_Update cr]"
    and "store (Reconcile r (Some cr)) = Some cr"
    and "exit (Reconcile r (Some cr)) =
           (case Status_Update_err r of
              None \<Rightarrow> Return \<lparr>Requeue = True, RequeueAfter = time_Minute\<rparr> None
            | Some updateErr \<Rightarrow> Return Result_zero (Some (Aggregate [updateErr])))"
proof -
  let ?s0 = "\<lparr>obj = cr, stored = Some cr, events = [], clock_reads = 0\<rparr>"
  let ?s = "emit (Call_Requests_Get requestId) (emit (Log_Info (''Pulling request '' @ requestId))
            (emit (HorizonClient_Init baseUrl (secret_Data secret ''username'')
                    (secret_Data secret ''password'')) ?s0))"
  have R: "Reconcile r (Some cr) =
           Reconcile_deferred r (?s, Return \<lparr>Requeue = True, RequeueAfter = time_Minute\<rparr> None)"
    using assms Reconcile_resolved [of r cr issuer issuerSpec issuerStatus secret]
    by (simp add: Reconcile_sign_def Reconcile_pull_def Let_def)
  show "trace (Reconcile r (Some cr)) =
           [HorizonClient_Init baseUrl (secret_Data secret ''username'') (secret_Data secret ''password''),
            Log_Info (''Pulling request '' @ requestId),
            Call_Requests_Get requestId,
            Call_Status_Update cr]"
    by (simp add: R deferred_no_error(1))
  show "store (Reconcile r (Some cr)) = Some cr"
    by (cases "Status_Update_err r") (simp_all add: R deferred_no_error)
  show "exit (Reconcile r (Some cr)) =
           (case Status_Update_err r of
              None \<Rightarrow> Return \<lparr>Requeue = True, RequeueAfter = time_Minute\<rparr> None
            | Some updateErr \<Rightarrow> Return Result_zero (Some (Aggregate [updateErr])))"
    by (cases "Status_Update_err r") (simp_all add: R deferred_no_error)
qed

lemma Reconciles_unchanged:
  "\<forall>r \<in> set rs. store (Reconcile r w) = w \<Longrightarrow> Reconciles rs w = map (\<lambda>r. Reconcile r w) rs"
  by (induction rs) simp_all

text \<open>A failure time once set stays, in memory and in the store.\<close>

lemma pull_FailureTime:
  assumes "FailureTime (Status (obj s)) = Some t"
    and "\<exists>c. stored s = Some c \<and> FailureTime (Status c) = Some t"
  shows "FailureTime (Status (obj (fst (Reconcile_pull r i s)))) = Some t
       \<and> (\<exists>c. stored (fst (Reconcile_pull r i s)) = Some c \<and> FailureTime (Status c) = Some t)"
  using assms by (auto simp: Reconcile_pull_def Let_def split: sum.splits)

lemma submit_FailureTime:
  assumes "FailureTime (Status (obj s)) = Some t"
    and "\<exists>c. stored s = Some c \<and> FailureTime (Status c) = Some t"
  shows "FailureTime (Status (obj (fst (Reconcile_submit r sp n s)))) = Some t
       \<and> (\<exists>c. stored (fst (Reconcile_submit r sp n s)) = Some c \<and> FailureTime (Status c) = Some t)"
  using assms by (auto simp: Reconcile_submit_def Let_def split: sum.splits option.splits)

lemma sign_FailureTime:
  assumes "FailureTime (Status (obj s)) = Some t"
    and "\<exists>c. stored s = Some c \<and> FailureTime (Status c) = Some t"
  shows "FailureTime (Status (obj (fst (Reconcile_sign r sp n d s)))) = Some t
       \<and> (\<exists>c. stored (fst (Reconcile_sign r sp n d s)) = Some c \<and> FailureTime (Status c) = Some t)"
proof (cases "url_Parse r (URL sp)")
  case (Inl e)
  with assms show ?thesis by (simp add: Reconcile_sign_def)
next
  case (Inr baseUrl)
  let ?s1 = "emit (HorizonClient_Init baseUrl (secret_Data d ''username'') (secret_Data d ''password'')) s"
  have a: "FailureTime (Status (obj ?s1)) = Some t"
    and b: "\<exists>c. stored ?s1 = Some c \<and> FailureTime (Status c) = Some t"
    using assms by simp_all
  show ?thesis
  proof (cases "CertificateRequestIsApproved (obj s)")
    case True
    with Inr a b show ?thesis by (simp add: Reconcile_sign_def Let_def)
  next
    case False
    show ?thesis
    proof (cases "annotation (obj s) requestIdAnnotation")
      case None
      with Inr False submit_FailureTime [OF a b, of r sp n] show ?thesis
        by (simp add: Reconcile_sign_def Let_def)
    next
      case (Some i)
      with Inr False pull_FailureTime [OF a b, of r i] show ?thesis
        by (simp add: Reconcile_sign_def Let_def)
    qed
  qed
qed

lemma issuer_FailureTime:
  assumes "FailureTime (Status (obj s)) = Some t"
    and "\<exists>c. stored s = Some c \<and> FailureTime (Status c) = Some t"
  shows "FailureTime (Status (obj (fst (Reconcile_issuer r s)))) = Some t
       \<and> (\<exists>c. stored (fst (Reconcile_issuer r s)) = Some c \<and> FailureTime (Status c) = Some t)"
  using assms sign_FailureTime [OF assms, of r]
  by (simp add: Reconcile_issuer_def Let_def split: sum.splits prod.splits)

lemma body_FailureTime:
  assumes "FailureTime (Status (obj s)) = Some t"
    and "\<exists>c. stored s = Some c \<and> FailureTime (Status c) = Some t"
  shows "FailureTime (Status (obj (fst (Reconcile_body r s)))) = Some t
       \<and> (\<exists>c. stored (fst (Reconcile_body r s)) = Some c \<and> FailureTime (Status c) = Some t)"
  using assms issuer_FailureTime [OF assms, of r]
  by (simp add: Reconcile_body_def Let_def split: sum.splits RuntimeObject.splits)

lemma deferred_FailureTime:
  assumes "FailureTime (Status (obj s)) = Some t"
    and "\<exists>c. stored s = Some c \<and> FailureTime (Status c) = Some t"
  shows "\<exists>c. store (Reconcile_deferred r (s, ex)) = Some c \<and> FailureTime (Status c) = Some t"
  using assms by (auto simp: Reconcile_deferred_def Let_def split: option.splits exit.splits)

lemma Reconcile_FailureTime:
  assumes "FailureTime (Status cr) = Some t"
  shows "\<exists>c. store (Reconcile r (Some cr)) = Some c \<and> FailureTime (Status c) = Some t"
proof (cases "takes_on r cr")
  case True
  let ?s0 = "\<lparr>obj = cr, stored = Some cr, events = [], clock_reads = 0\<rparr>"
  have a: "FailureTime (Status (obj ?s0)) = Some t"
    and b: "\<exists>c. stored ?s0 = Some c \<and> FailureTime (Status c) = Some t"
    using assms by simp_all
  obtain s ex where e: "Reconcile_body r ?s0 = (s, ex)" by (cases "Reconcile_body r ?s0")
  from body_FailureTime [OF a b, of r] e
  have "FailureTime (Status (obj s)) = Some t"
    and "\<exists>c. stored s = Some c \<and> FailureTime (Status c) = Some t"
    by simp_all
  from deferred_FailureTime [OF this] True e show ?thesis
    by (simp add: Reconcile_taken)
next
  case False
  with assms show ?thesis
    by (auto simp: Reconcile_def takes_on_def split: option.splits)
qed

lemma Reconciles_FailureTime:
  "FailureTime (Status cr) = Some t \<Longrightarrow>
   \<forall>run \<in> set (Reconciles rs (Some cr)). \<exists>c. store run = Some c \<and> FailureTime (Status c) = Some t"
proof (induction rs arbitrary: cr)
  case Nil
  then show ?case by simp
next
  case (Cons r rs)
  from Reconcile_FailureTime [OF Cons.prems, of r] obtain c where
    c: "store (Reconcile r (Some cr)) = Some c" "FailureTime (Status c) = Some t"
    by blast
  from Cons.IH [OF c(2)] c show ?case by simp
qed

lemma denied_body:
  assumes "CertificateRequestIsDenied (obj s)"
  shows "Reconcile_body r s =
     (setReadyCondition r ConditionFalse CertificateRequestReasonDenied
        ''The CertificateRequest was denied by an approval controller''
        (let s1 = emit (Log_Info ''CertificateRequest has been denied yet. Marking as failed.'') s
         in if FailureTime (Status (obj s1)) = None
            then s1\<lparr>obj := (obj s1)\<lparr>Status := (Status (obj s1))\<lparr>FailureTime := Some (Clock_Now r)\<rparr>\<rparr>\<rparr>
            else s1),
      Return Result_zero None)"
  using assms by (simp add: Reconcile_body_def Let_def)

lemma denied_step:
  fixes r :: "('i, 's) CertificateRequestReconciler"
  assumes "takes_on r cr" and "CertificateRequestIsDenied cr"
  shows "\<exists>cr'. trace (Reconcile r (Some cr)) =
                     [Log_Info ''CertificateRequest has been denied yet. Marking as failed.'',
                      Call_Status_Update cr']
                 \<and> FailureTime (Status cr') =
                     (case FailureTime (Status cr) of None \<Rightarrow> Some (Clock_Now r) | Some t \<Rightarrow> Some t)
                 \<and> CertificateRequestHasCondition cr' Ready_Denied
                 \<and> exit (Reconcile r (Some cr)) =
                     Return Result_zero
                       (case Status_Update_err r of
                          None \<Rightarrow> None
                        | Some updateErr \<Rightarrow> Some (Aggregate [updateErr]))
                 \<and> (Status_Update_err r = None \<longrightarrow> store (Reconcile r (Some cr)) = Some cr')"
proof -
  let ?s0 = "\<lparr>obj = cr, stored = Some cr, events = [], clock_reads = 0\<rparr>"
  let ?log = "Log_Info ''CertificateRequest has been denied yet. Marking as failed.''"
  define s2 where "s2 = (case FailureTime (Status cr) of
       None \<Rightarrow> \<lparr>obj = cr\<lparr>Status := (Status cr)\<lparr>FailureTime := Some (Clock_Now r)\<rparr>\<rparr>,
                 stored = Some cr, events = [?log], clock_reads = 0\<rparr>
     | Some t \<Rightarrow> \<lparr>obj = cr, stored = Some cr, events = [?log], clock_reads = 0\<rparr>)"
  define s3 where "s3 = setReadyCondition r ConditionFalse CertificateRequestReasonDenied
                    ''The CertificateRequest was denied by an approval controller'' s2"
  have s2: "(let s1 = emit ?log ?s0
         in if FailureTime (Status (obj s1)) = None
            then s1\<lparr>obj := (obj s1)\<lparr>Status := (Status (obj s1))\<lparr>FailureTime := Some (Clock_Now r)\<rparr>\<rparr>\<rparr>
            else s1) = s2"
    by (cases "FailureTime (Status cr)") (simp_all add: s2_def Let_def emit_def)
  have b: "Reconcile_body r ?s0 = (s3, Return Result_zero None)"
    using denied_body [of ?s0 r] assms(2) unfolding s3_def s2 [symmetric] by simp
  have R: "Reconcile r (Some cr) = Reconcile_deferred r (s3, Return Result_zero None)"
    using assms(1) b by (simp add: Reconcile_taken)
  have ev: "events s2 = [?log]" and st: "stored s2 = Some cr"
    and ft2: "FailureTime (Status (obj s2)) =
                (case FailureTime (Status cr) of None \<Rightarrow> Some (Clock_Now r) | Some t \<Rightarrow> Some t)"
    and o2: "(obj s2)\<lparr>Status := x\<rparr> = cr\<lparr>Status := x\<rparr>" for x
    by (cases "FailureTime (Status cr)"; simp add: s2_def)+
  have tr: "trace (Reconcile r (Some cr)) = [?log, Call_Status_Update (obj s3)]"
    by (simp add: R deferred_no_error(1) s3_def ev)
  have ft: "FailureTime (Status (obj s3)) =
                     (case FailureTime (Status cr) of None \<Rightarrow> Some (Clock_Now r) | Some t \<Rightarrow> Some t)"
    by (simp add: s3_def ft2)
  have has: "CertificateRequestHasCondition (obj s3) Ready_Denied"
    unfolding s3_def by (rule setReadyCondition_has) simp_all
  have same: "cr\<lparr>Status := Status (obj s3)\<rparr> = obj s3"
    unfolding s3_def o2 [symmetric] by (rule setReadyCondition_obj)
  have ex: "exit (Reconcile r (Some cr)) =
              Return Result_zero
                (case Status_Update_err r of None \<Rightarrow> None | Some updateErr \<Rightarrow> Some (Aggregate [updateErr]))"
    unfolding R by (rule deferred_no_error(6))
  have ok: "store (Reconcile r (Some cr)) = Some (obj s3)"
    if "Status_Update_err r = None"
    using that same by (simp add: R deferred_no_error(3) s3_def st)
  show ?thesis
  proof (intro exI [of _ "obj s3"] conjI impI)
    show "trace (Reconcile r (Some cr)) = [?log, Call_Status_Update (obj s3)]" by (rule tr)
    show "FailureTime (Status (obj s3)) =
            (case FailureTime (Status cr) of None \<Rightarrow> Some (Clock_Now r) | Some t \<Rightarrow> Some t)"
      by (rule ft)
    show "CertificateRequestHasCondition (obj s3) Ready_Denied" by (rule has)
    show "exit (Reconcile r (Some cr)) =
              Return Result_zero
                (case Status_Update_err r of None \<Rightarrow> None | Some updateErr \<Rightarrow> Some (Aggregate [updateErr]))"
      by (rule ex)
  next
    assume "Status_Update_err r = None"
    then show "store (Reconcile r (Some cr)) = Some (obj s3)" by (rule ok)
  qed
qed

text \<open>An error of the body comes with the zero result.\<close>

lemma pull_error_zero: "snd (Reconcile_pull r i s) = Return res (Some e) \<Longrightarrow> res = Result_zero"
  by (auto simp: Reconcile_pull_def Let_def split: sum.splits if_splits)

lemma submit_error_zero: "snd (Reconcile_submit r sp n s) = Return res (Some e) \<Longrightarrow> res = Result_zero"
  by (auto simp: Reconcile_submit_def Let_def split: sum.splits option.splits)

lemma sign_error_zero: "snd (Reconcile_sign r sp n d s) = Return res (Some e) \<Longrightarrow> res = Result_zero"
  by (auto simp: Reconcile_sign_def Let_def split: sum.splits option.splits if_splits
      dest: pull_error_zero submit_error_zero)

lemma issuer_error_zero: "snd (Reconcile_issuer r s) = Return res (Some e) \<Longrightarrow> res = Result_zero"
  by (auto simp: Reconcile_issuer_def Let_def split: sum.splits prod.splits if_splits
      dest: sign_error_zero)

lemma body_error_zero: "snd (Reconcile_body r s) = Return res (Some e) \<Longrightarrow> res = Result_zero"
  by (auto simp: Reconcile_body_def Let_def split: sum.splits RuntimeObject.splits if_splits
      dest: issuer_error_zero)

lemma deferred_exit_cases:
  assumes "exit (Reconcile_deferred r (s, ex)) = Return res (Some err)"
  obtains (plain) e where "ex = Return res (Some e)" "err = Plain e" "Status_Update_err r = None"
  | (both) e res' u where "ex = Return res' (Some e)" "err = Aggregate [e, u]"
      "Status_Update_err r = Some u" "res = Result_zero"
  | (persist) u res' where "ex = Return res' None" "err = Aggregate [u]"
      "Status_Update_err r = Some u" "res = Result_zero"
proof (cases ex)
  case Panic
  with assms show ?thesis
    by (simp add: Reconcile_deferred_def Let_def split: option.splits)
next
  case (Return res0 e0)
  show ?thesis
  proof (cases e0)
    case None
    with Return assms persist show ?thesis
      by (cases "Status_Update_err r") (auto simp: deferred_no_error)
  next
    case (Some e)
    with Return assms plain both show ?thesis
      by (cases "Status_Update_err r") (auto simp: deferred_error(2))
  qed
qed

text \<open>With the annotation set, nothing is submitted and the annotations stay.\<close>

lemma pull_annotated:
  assumes "\<forall>p c l. Call_DecentralizedEnroll p c l \<notin> set (events s)"
    and "\<forall>j. Call_Requests_Get j \<in> set (events s) \<longrightarrow> j = i"
  shows "(\<forall>p c l. Call_DecentralizedEnroll p c l \<notin> set (events (fst (Reconcile_pull r i s))))
       \<and> (\<forall>j. Call_Requests_Get j \<in> set (events (fst (Reconcile_pull r i s))) \<longrightarrow> j = i)
       \<and> Annotations (obj (fst (Reconcile_pull r i s))) = Annotations (obj s)
       \<and> stored (fst (Reconcile_pull r i s)) = stored s"
  using assms by (auto simp: Reconcile_pull_def Let_def split: sum.splits)

lemma sign_annotated:
  assumes "annotation (obj s) requestIdAnnotation = Some i"
    and "\<forall>p c l. Call_DecentralizedEnroll p c l \<notin> set (events s)"
    and "\<forall>j. Call_Requests_Get j \<in> set (events s) \<longrightarrow> j = i"
  shows "(\<forall>p c l. Call_DecentralizedEnroll p c l \<notin> set (events (fst (Reconcile_sign r sp n d s))))
       \<and> (\<forall>j. Call_Requests_Get j \<in> set (events (fst (Reconcile_sign r sp n d s))) \<longrightarrow> j = i)
       \<and> Annotations (obj (fst (Reconcile_sign r sp n d s))) = Annotations (obj s)
       \<and> stored (fst (Reconcile_sign r sp n d s)) = stored s"
proof (cases "url_Parse r (URL sp)")
  case (Inl e)
  with assms show ?thesis by (simp add: Reconcile_sign_def)
next
  case (Inr baseUrl)
  let ?s1 = "emit (HorizonClient_Init baseUrl (secret_Data d ''username'') (secret_Data d ''password'')) s"
  have a: "\<forall>p c l. Call_DecentralizedEnroll p c l \<notin> set (events ?s1)"
    and b: "\<forall>j. Call_Requests_Get j \<in> set (events ?s1) \<longrightarrow> j = i"
    using assms(2,3) by simp_all
  show ?thesis
  proof (cases "CertificateRequestIsApproved (obj s)")
    case True
    with Inr a b show ?thesis by (simp add: Reconcile_sign_def Let_def)
  next
    case False
    with Inr assms(1) pull_annotated [OF a b, of r] show ?thesis
      by (simp add: Reconcile_sign_def Let_def)
  qed
qed

lemma issuer_annotated:
  assumes "annotation (obj s) requestIdAnnotation = Some i"
    and "\<forall>p c l. Call_DecentralizedEnroll p c l \<notin> set (events s)"
    and "\<forall>j. Call_Requests_Get j \<in> set (events s) \<longrightarrow> j = i"
  shows "(\<forall>p c l. Call_DecentralizedEnroll p c l \<notin> set (events (fst (Reconcile_issuer r s))))
       \<and> (\<forall>j. Call_Requests_Get j \<in> set (events (fst (Reconcile_issuer r s))) \<longrightarrow> j = i)
       \<and> Annotations (obj (fst (Reconcile_issuer r s))) = Annotations (obj s)
       \<and> stored (fst (Reconcile_issuer r s)) = stored s"
  using assms(2,3) sign_annotated [OF assms, of r]
  by (simp add: Reconcile_issuer_def Let_def split: sum.splits prod.splits)

lemma body_annotated:
  assumes "annotation (obj s) requestIdAnnotation = Some i"
    and "\<forall>p c l. Call_DecentralizedEnroll p c l \<notin> set (events s)"
    and "\<forall>j. Call_Requests_Get j \<in> set (events s) \<longrightarrow> j = i"
  shows "(\<forall>p c l. Call_DecentralizedEnroll p c l \<notin> set (events (fst (Reconcile_body r s))))
       \<and> (\<forall>j. Call_Requests_Get j \<in> set (events (fst (Reconcile_body r s))) \<longrightarrow> j = i)
       \<and> Annotations (obj (fst (Reconcile_body r s))) = Annotations (obj s)
       \<and> stored (fst (Reconcile_body r s)) = stored s"
  using assms(2,3) issuer_annotated [OF assms, of r]
  by (simp add: Reconcile_body_def Let_def split: sum.splits RuntimeObject.splits)

lemma deferred_annotated:
  assumes "\<forall>p c l. Call_DecentralizedEnroll p c l \<notin> set (events s)"
    and "\<forall>j. Call_Requests_Get j \<in> set (events s) \<longrightarrow> j = i"
    and "stored s = Some c"
  shows "(\<forall>p c l. Call_DecentralizedEnroll p c l \<notin> set (trace (Reconcile_deferred r (s, ex))))
       \<and> (\<forall>j. Call_Requests_Get j \<in> set (trace (Reconcile_deferred r (s, ex))) \<longrightarrow> j = i)
       \<and> (\<exists>c'. store (Reconcile_deferred r (s, ex)) = Some c' \<and> Annotations c' = Annotations c)"
  using assms by (auto simp: Reconcile_deferred_def Let_def split: option.splits)

lemma Reconcile_annotated:
  assumes "annotation cr requestIdAnnotation = Some i"
  shows "(\<forall>p c l. Call_DecentralizedEnroll p c l \<notin> set (trace (Reconcile r (Some cr))))
       \<and> (\<forall>j. Call_Requests_Get j \<in> set (trace (Reconcile r (Some cr))) \<longrightarrow> j = i)
       \<and> (\<exists>cr'. store (Reconcile r (Some cr)) = Some cr' \<and> Annotations cr' = Annotations cr)"
proof (cases "takes_on r cr")
  case True
  let ?s0 = "\<lparr>obj = cr, stored = Some cr, events = [], clock_reads = 0\<rparr>"
  have a: "annotation (obj ?s0) requestIdAnnotation = Some i"
    and e: "\<forall>p c l. Call_DecentralizedEnroll p c l \<notin> set (events ?s0)"
    and g: "\<forall>j. Call_Requests_Get j \<in> set (events ?s0) \<longrightarrow> j = i"
    using assms by simp_all
  obtain s ex where b: "Reconcile_body r ?s0 = (s, ex)" by (cases "Reconcile_body r ?s0")
  from body_annotated [OF a e g, of r] b
  have e1: "\<forall>p c l. Call_DecentralizedEnroll p c l \<notin> set (events s)"
    and e2: "\<forall>j. Call_Requests_Get j \<in> set (events s) \<longrightarrow> j = i"
    and e3: "stored s = Some cr"
    by simp_all
  from deferred_annotated [OF e1 e2 e3, of r ex] True b show ?thesis
    by (simp add: Reconcile_taken)
next
  case False
  then show ?thesis by (auto simp: Reconcile_def takes_on_def split: option.splits)
qed

lemma Reconciles_annotated:
  "annotation cr requestIdAnnotation = Some i \<Longrightarrow>
   \<forall>run \<in> set (Reconciles rs (Some cr)).
     (\<forall>p c l. Call_DecentralizedEnroll p c l \<notin> set (trace run))
     \<and> (\<forall>j. Call_Requests_Get j \<in> set (trace run) \<longrightarrow> j = i)
     \<and> (\<exists>cr'. store run = Some cr' \<and> annotation cr' requestIdAnnotation = Some i)"
proof (induction rs arbitrary: cr)
  case Nil
  then show ?case by simp
next
  case (Cons r rs)
  from Reconcile_annotated [OF Cons.prems, of r] obtain cr' where
    c: "store (Reconcile r (Some cr)) = Some cr'" "Annotations cr' = Annotations cr"
    by blast
  with Cons.prems have a': "annotation cr' requestIdAnnotation = Some i"
    by (simp add: annotation_def)
  have here: "(\<forall>p c l. Call_DecentralizedEnroll p c l \<notin> set (trace (Reconcile r (Some cr))))
     \<and> (\<forall>j. Call_Requests_Get j \<in> set (trace (Reconcile r (Some cr))) \<longrightarrow> j = i)
     \<and> (\<exists>cr'. store (Reconcile r (Some cr)) = Some cr' \<and> annotation cr' requestIdAnnotation = Some i)"
    using Reconcile_annotated [OF Cons.prems, of r] c a' by simp
  from Cons.IH [OF a'] here c show ?case by simp
qed

lemma poll_calls_Get:
  assumes "takes_on r cr"
    and "resolves r cr issuer issuerSpec issuerStatus secret"
    and "url_Parse r (URL issuerSpec) = Inr baseUrl"
    and "\<not> CertificateRequestIsApproved cr"
    and "annotation cr requestIdAnnotation = Some requestId"
  shows "Call_Requests_Get requestId \<in> set (trace (Reconcile r (Some cr)))"
proof -
  let ?s0 = "\<lparr>obj = cr, stored = Some cr, events = [], clock_reads = 0\<rparr>"
  let ?s1 = "emit (HorizonClient_Init baseUrl (secret_Data secret ''username'')
                    (secret_Data secret ''password'')) ?s0"
  obtain s ex where p: "Reconcile_pull r requestId ?s1 = (s, ex)"
    by (cases "Reconcile_pull r requestId ?s1")
  have "Call_Requests_Get requestId \<in> set (events (fst (Reconcile_pull r requestId ?s1)))"
    by (simp add: Reconcile_pull_def Let_def split: sum.splits)
  with p have ev: "Call_Requests_Get requestId \<in> set (events s)" by simp
  have R: "Reconcile r (Some cr) = Reconcile_deferred r (s, ex)"
    using assms p Reconcile_resolved [of r cr issuer issuerSpec issuerStatus secret]
    by (simp add: Reconcile_sign_def Let_def)
  obtain x where "trace (Reconcile_deferred r (s, ex)) = events s @ [Call_Status_Update x]"
    using deferred_trace by blast
  with ev R show ?thesis by simp
qed

section \<open>The three steps of a request\<close>

text \<open>
  Submission, polling (lemma \<open>pending_poll\<close> above) and completion, for a request
  whose annotation map is allocated, and the scenario of the specification
  evaluated.
\<close>

lemma set_condition_keeps:
  "c \<in> set conds \<Longrightarrow> Type c \<noteq> Type new \<Longrightarrow> c \<in> set (set_condition new conds)"
  by (induction conds) auto

lemma set_condition_member:
  "\<exists>c \<in> set (set_condition new conds).
     Type c = Type new \<and> cond_Status c = cond_Status new \<and> Reason c = Reason new
     \<and> Message c = Message new"
  by (induction conds) auto

lemma submit_step:
  assumes "takes_on r cr"
    and "resolves r cr issuer issuerSpec issuerStatus secret"
    and "url_Parse r (URL issuerSpec) = Inr baseUrl"
    and "\<not> CertificateRequestIsApproved cr"
    and "Annotations cr = Some m" and "m requestIdAnnotation = None"
    and "Requests_DecentralizedEnroll r (Profile issuerSpec) (Request (Spec cr)) [] = Inr request"
    and "Update_err r = None"
    and "Status_Update_err r = None"
    and "submitted = cr\<lparr>Annotations := Some (m(requestIdAnnotation \<mapsto> req_Id request))\<rparr>"
    and "pending = SetCertificateRequestCondition (cmutil_Clock_Now r 0) submitted
           CertificateRequestConditionReady ConditionFalse CertificateRequestReasonPending
           ''Submitted request to Horizon''"
  shows "trace (Reconcile r (Some cr)) =
           [HorizonClient_Init baseUrl (secret_Data secret ''username'') (secret_Data secret ''password''),
            Call_DecentralizedEnroll (Profile issuerSpec) (Request (Spec cr)) [],
            Call_Update submitted,
            Call_Status_Update pending]"
    and "store (Reconcile r (Some cr)) = Some pending"
    and "exit (Reconcile r (Some cr)) = Return \<lparr>Requeue = True, RequeueAfter = time_Minute\<rparr> None"
    and "annotation pending requestIdAnnotation = Some (req_Id request)"
    and "CertificateRequestHasCondition pending
           (Ready_True\<lparr>cond_Status := ConditionFalse, Reason := CertificateRequestReasonPending\<rparr>)"
proof -
  let ?s0 = "\<lparr>obj = cr, stored = Some cr, events = [], clock_reads = 0\<rparr>"
  let ?init = "HorizonClient_Init baseUrl (secret_Data secret ''username'') (secret_Data secret ''password'')"
  let ?enroll = "Call_DecentralizedEnroll (Profile issuerSpec) (Request (Spec cr)) []"
  define s4 where "s4 = \<lparr>obj = submitted, stored = Some submitted,
                          events = [?init, ?enroll, Call_Update submitted], clock_reads = 0\<rparr>"
  define s5 where "s5 = setReadyCondition r ConditionFalse CertificateRequestReasonPending
                          ''Submitted request to Horizon'' s4"
  have sub: "Reconcile_submit r issuerSpec
               \<lparr>nn_Namespace = Namespace cr, nn_Name = AuthSecretName issuerSpec\<rparr> (emit ?init ?s0)
             = (s5, Return \<lparr>Requeue = True, RequeueAfter = time_Minute\<rparr> None)"
    using assms(5,7,8) by (simp add: Reconcile_submit_def Let_def emit_def s5_def s4_def assms(10))
  have R: "Reconcile r (Some cr) =
           Reconcile_deferred r (s5, Return \<lparr>Requeue = True, RequeueAfter = time_Minute\<rparr> None)"
    using assms(1-6) sub Reconcile_resolved [of r cr issuer issuerSpec issuerStatus secret]
    by (simp add: Reconcile_sign_def Let_def annotation_def)
  have o5: "obj s5 = pending"
    by (simp add: s5_def s4_def setReadyCondition_def set_Condition_def assms(11))
  have e5: "events s5 = [?init, ?enroll, Call_Update submitted]" and st5: "stored s5 = Some submitted"
    by (simp_all add: s5_def s4_def)
  show "trace (Reconcile r (Some cr)) = [?init, ?enroll, Call_Update submitted, Call_Status_Update pending]"
    by (simp add: R deferred_no_error(1) o5 e5)
  have "submitted\<lparr>Status := Status pending\<rparr> = pending"
    by (simp add: assms(11) SetCertificateRequestCondition_def)
  then show "store (Reconcile r (Some cr)) = Some pending"
    using assms(9) by (simp add: R deferred_no_error(3) o5 st5)
  show "exit (Reconcile r (Some cr)) = Return \<lparr>Requeue = True, RequeueAfter = time_Minute\<rparr> None"
    using assms(9) by (simp add: R deferred_no_error(2))
  show "annotation pending requestIdAnnotation = Some (req_Id request)"
    by (simp add: assms(10,11) annotation_def SetCertificateRequestCondition_def)
  have "CertificateRequestHasCondition (obj s5)
           (Ready_True\<lparr>cond_Status := ConditionFalse, Reason := CertificateRequestReasonPending\<rparr>)"
    unfolding s5_def by (rule setReadyCondition_has) simp_all
  then show "CertificateRequestHasCondition pending
           (Ready_True\<lparr>cond_Status := ConditionFalse, Reason := CertificateRequestReasonPending\<rparr>)"
    by (simp add: o5)
qed

lemma completed_step:
  assumes "takes_on r cr"
    and "resolves r cr issuer issuerSpec issuerStatus secret"
    and "url_Parse r (URL issuerSpec) = Inr baseUrl"
    and "\<not> CertificateRequestIsApproved cr"
    and "annotation cr requestIdAnnotation = Some requestId"
    and "Requests_Get r requestId = Inr request"
    and "req_Status request = ''completed''"
    and "Status_Update_err r = None"
  shows "\<exists>issued.
           trace (Reconcile r (Some cr)) =
             [HorizonClient_Init baseUrl (secret_Data secret ''username'') (secret_Data secret ''password''),
              Log_Info (''Pulling request '' @ requestId),
              Call_Requests_Get requestId] @ [Call_Status_Update issued]
         \<and> store (Reconcile r (Some cr)) = Some issued
         \<and> exit (Reconcile r (Some cr)) = Return Result_zero None
         \<and> Certificate (Status issued) = req_Certificate request
         \<and> CertificateRequestIsApproved issued
         \<and> (\<exists>c. Ready_condition issued = Some c \<and> cond_Status c = ConditionTrue
                \<and> Reason c = CertificateRequestReasonIssued \<and> Message c = ''Signed'')
         \<and> Annotations issued = Annotations cr"
proof -
  let ?s0 = "\<lparr>obj = cr, stored = Some cr, events = [], clock_reads = 0\<rparr>"
  let ?init = "HorizonClient_Init baseUrl (secret_Data secret ''username'') (secret_Data secret ''password'')"
  let ?evs = "[?init, Log_Info (''Pulling request '' @ requestId), Call_Requests_Get requestId]"
  define s2 where "s2 = \<lparr>obj = cr, stored = Some cr, events = ?evs, clock_reads = 0\<rparr>"
  define s3 where "s3 = set_Condition r CertificateRequestConditionApproved ConditionTrue
                           ''horizon.evertrust.io'' ''Request approved on Horizon'' s2"
  define s4 where "s4 = s3\<lparr>obj := (obj s3)\<lparr>Status :=
                               (Status (obj s3))\<lparr>Certificate := req_Certificate request\<rparr>\<rparr>\<rparr>"
  define s5 where "s5 = setReadyCondition r ConditionTrue CertificateRequestReasonIssued ''Signed'' s4"
  have pull: "Reconcile_pull r requestId (emit ?init ?s0) = (s5, Return Result_zero None)"
    using assms(6,7) by (simp add: Reconcile_pull_def Let_def emit_def s5_def s4_def s3_def s2_def)
  have R: "Reconcile r (Some cr) = Reconcile_deferred r (s5, Return Result_zero None)"
    using assms(1-5) pull Reconcile_resolved [of r cr issuer issuerSpec issuerStatus secret]
    by (simp add: Reconcile_sign_def Let_def)
  have e5: "events s5 = ?evs" and st5: "stored s5 = Some cr"
    by (simp_all add: s5_def s4_def s3_def s2_def)
  have o5: "cr\<lparr>Status := Status (obj s5)\<rparr> = obj s5"
    by (simp add: s5_def s4_def s3_def s2_def setReadyCondition_def set_Condition_def
        SetCertificateRequestCondition_def)
  have cert: "Certificate (Status (obj s5)) = req_Certificate request"
    by (simp add: s5_def s4_def)
  have ann: "Annotations (obj s5) = Annotations cr"
    by (simp add: s5_def s4_def s3_def s2_def)
  have rc: "\<exists>c. Ready_condition (obj s5) = Some c \<and> cond_Status c = ConditionTrue
                \<and> Reason c = CertificateRequestReasonIssued \<and> Message c = ''Signed''"
    unfolding s5_def by (rule setReadyCondition_Ready)
  have "\<exists>c \<in> set (Conditions (Status (obj s3))).
          Type c = CertificateRequestConditionApproved \<and> cond_Status c = ConditionTrue"
    unfolding s3_def set_Condition_def SetCertificateRequestCondition_def
    using set_condition_member [of "\<lparr>Type = CertificateRequestConditionApproved,
        cond_Status = ConditionTrue,
        LastTransitionTime = Some (cmutil_Clock_Now r (clock_reads s2)),
        Reason = ''horizon.evertrust.io'', Message = ''Request approved on Horizon''\<rparr>"
        "Conditions (Status (obj s2))"]
    by auto
  then obtain c where c: "c \<in> set (Conditions (Status (obj s4)))"
      "Type c = CertificateRequestConditionApproved" "cond_Status c = ConditionTrue"
    by (auto simp: s4_def)
  have "c \<in> set (Conditions (Status (obj s5)))"
    unfolding s5_def setReadyCondition_def set_Condition_def SetCertificateRequestCondition_def
    using c by (simp add: set_condition_keeps)
  with c have ap: "CertificateRequestIsApproved (obj s5)"
    by (auto simp: CertificateRequestIsApproved_def list_ex_iff)
  show ?thesis
  proof (intro exI [of _ "obj s5"] conjI)
    show "trace (Reconcile r (Some cr)) = ?evs @ [Call_Status_Update (obj s5)]"
      by (simp add: R deferred_no_error(1) e5)
    show "store (Reconcile r (Some cr)) = Some (obj s5)"
      using assms(8) o5 by (simp add: R deferred_no_error(3) st5)
    show "exit (Reconcile r (Some cr)) = Return Result_zero None"
      using assms(8) by (simp add: R deferred_no_error(2))
  qed (rule cert ap rc ann)+
qed

lemma scenario_with_annotation_map:
  "map exit (Reconciles [r_pending, r_pending, r_completed] (Some cr_new)) =
     [Return \<lparr>Requeue = True, RequeueAfter = time_Minute\<rparr> None,
      Return \<lparr>Requeue = True, RequeueAfter = time_Minute\<rparr> None,
      Return Result_zero None]"
  "map store (Reconciles [r_pending, r_pending, r_completed] (Some cr_new)) =
     [Some cr_submitted, Some cr_submitted, Some cr_issued]"
  "map trace (Reconciles [r_pending, r_pending, r_completed] (Some cr_new)) =
     [[HorizonClient_Init (Parsed ''https://pki.example'') ''admin'' ''secret'',
       Call_DecentralizedEnroll ''webserver'' ''CSR'' [],
       Call_Update (cr_new\<lparr>Annotations := Some [requestIdAnnotation \<mapsto> ''req-42'']\<rparr>),
       Call_Status_Update cr_submitted],
      [HorizonClient_Init (Parsed ''https://pki.example'') ''admin'' ''secret'',
       Log_Info ''Pulling request req-42'',
       Call_Requests_Get ''req-42'',
       Call_Status_Update cr_submitted],
      [HorizonClient_Init (Parsed ''https://pki.example'') ''admin'' ''secret'',
       Log_Info ''Pulling request req-42'',
       Call_Requests_Get ''req-42'',
       Call_Status_Update cr_issued]]"
  by (simp_all add: scenario_defs Reconcile_defs)

text \<open>
  A request whose annotation was not stored, because the \<open>Update\<close> after the
  submission failed, is submitted again by the next reconcile.
\<close>

lemma resubmitted_after_failed_Update:
  "Call_DecentralizedEnroll ''webserver'' ''CSR'' []
     \<in> set (trace (Reconciles [r_update_fails, r_pending] (Some cr_new) ! 0))"
  "Call_DecentralizedEnroll ''webserver'' ''CSR'' []
     \<in> set (trace (Reconciles [r_update_fails, r_pending] (Some cr_new) ! 1))"
  "map (\<lambda>run. map_option (\<lambda>c. annotation c requestIdAnnotation) (store run))
     (Reconciles [r_update_fails, r_pending] (Some cr_new)) = [Some None, Some (Some ''req-42'')]"
  by (simp_all add: scenario_defs Reconcile_defs)

section \<open>What the status update is given\<close>

text \<open>
  Only a successful \<open>Update\<close> writes to the object store before the deferred
  function runs, and it is made before any condition is set: the status the store
  holds is the one the request had when it was loaded.
\<close>

lemma pull_stored:
  "stored (fst (Reconcile_pull r i s)) = stored s"
  by (auto simp: Reconcile_pull_def Let_def split: sum.splits if_splits)

lemma submit_stored_Status:
  assumes "map_option Status (stored s) = Some (Status (obj s))"
  shows "map_option Status (stored (fst (Reconcile_submit r sp n s))) = Some (Status (obj s))"
  using assms by (auto simp: Reconcile_submit_def Let_def split: sum.splits option.splits if_splits)

lemma sign_stored_Status:
  assumes "map_option Status (stored s) = Some (Status (obj s))"
  shows "map_option Status (stored (fst (Reconcile_sign r sp n d s))) = Some (Status (obj s))"
  using assms submit_stored_Status [of "emit e s" for e]
  by (auto simp: Reconcile_sign_def Let_def pull_stored split: sum.splits option.splits if_splits)

lemma issuer_stored_Status:
  assumes "map_option Status (stored s) = Some (Status (obj s))"
  shows "map_option Status (stored (fst (Reconcile_issuer r s))) = Some (Status (obj s))"
  using assms sign_stored_Status [OF assms]
  by (auto simp: Reconcile_issuer_def Let_def split: sum.splits option.splits if_splits prod.splits)

lemma body_stored_Status:
  assumes "map_option Status (stored s) = Some (Status (obj s))"
  shows "map_option Status (stored (fst (Reconcile_body r s))) = Some (Status (obj s))"
  using assms issuer_stored_Status [OF assms]
  by (auto simp: Reconcile_body_def Let_def split: sum.splits option.splits if_splits RuntimeObject.splits)

text \<open>
  The deferred function hands the request in memory to the status update, after
  setting Ready to False with reason Pending on it when the body returned an error.
\<close>

lemma deferred_update:
  "trace (Reconcile_deferred r (s, ex)) =
     events s @ [Call_Status_Update
       (case ex of
          Return res None \<Rightarrow> obj s
        | Return res (Some e) \<Rightarrow>
            obj (setReadyCondition r ConditionFalse CertificateRequestReasonPending (Error e) s)
        | Panic \<Rightarrow> obj s)]"
  "map_option Status (store (Reconcile_deferred r (s, ex))) =
     (case Status_Update_err r of
        None \<Rightarrow> map_option (\<lambda>old. Status
          (case ex of
             Return res None \<Rightarrow> obj s
           | Return res (Some e) \<Rightarrow>
               obj (setReadyCondition r ConditionFalse CertificateRequestReasonPending (Error e) s)
           | Panic \<Rightarrow> obj s)) (stored s)
      | Some updateErr \<Rightarrow> map_option Status (stored s))"
  by (auto simp: Reconcile_deferred_def Let_def option.map_comp comp_def split: option.splits exit.splits)

section \<open>The claims\<close>

text \<open>
  C1, at a new request that carries no annotations at all, so that its annotation
  map is nil, with the issuer ready and its secret there. The reconcile takes the
  request on, calls submit-enrollment once with the issuer's profile, the CSR and
  no labels, and panics when it stores the returned id: it returns no result, and
  the stored request has neither the id nor a Ready condition. (With an allocated
  map the three reconciles are those of \<open>scenario_with_annotation_map\<close>.)
\<close>

theorem C1_no_annotations:
  "annotation cr_no_annotations requestIdAnnotation = None
   \<and> takes_on r_pending cr_no_annotations
   \<and> resolves r_pending cr_no_annotations () iss1 () cred
   \<and> exit (Reconcile r_pending (Some cr_no_annotations)) = Panic
   \<and> trace (Reconcile r_pending (Some cr_no_annotations)) =
       [HorizonClient_Init (Parsed ''https://pki.example'') ''admin'' ''secret'',
        Call_DecentralizedEnroll ''webserver'' ''CSR'' [],
        Call_Status_Update cr_no_annotations]
   \<and> store (Reconcile r_pending (Some cr_no_annotations)) = Some cr_no_annotations"
  by (simp add: scenario_defs Reconcile_defs)

text \<open>
  C2, as the code has it. Once the correlation annotation is set in the stored
  request, no reconcile of any sequence of reconciles calls submit-enrollment, the
  annotation stays, and get-by-id is called with no other id. A reconcile does
  call get-by-id when it gets as far as the poll: it takes the request on, the
  request is neither denied nor approved, and the issuer, its secret and the base
  URL are resolved.
\<close>

theorem C2_never_resubmitted:
  assumes "annotation cr requestIdAnnotation = Some requestId"
  shows "(\<forall>run \<in> set (Reconciles rs (Some cr)).
            (\<forall>profile csr labels. Call_DecentralizedEnroll profile csr labels \<notin> set (trace run))
            \<and> (\<forall>j. Call_Requests_Get j \<in> set (trace run) \<longrightarrow> j = requestId)
            \<and> (\<exists>cr'. store run = Some cr' \<and> annotation cr' requestIdAnnotation = Some requestId))
       \<and> (takes_on r cr \<and> resolves r cr issuer issuerSpec issuerStatus secret
          \<and> url_Parse r (URL issuerSpec) = Inr baseUrl
          \<and> \<not> CertificateRequestIsApproved cr \<longrightarrow>
            Call_Requests_Get requestId \<in> set (trace (Reconcile r (Some cr))))"
proof (intro conjI impI)
  show "\<forall>run \<in> set (Reconciles rs (Some cr)).
            (\<forall>profile csr labels. Call_DecentralizedEnroll profile csr labels \<notin> set (trace run))
            \<and> (\<forall>j. Call_Requests_Get j \<in> set (trace run) \<longrightarrow> j = requestId)
            \<and> (\<exists>cr'. store run = Some cr' \<and> annotation cr' requestIdAnnotation = Some requestId)"
    using assms by (rule Reconciles_annotated)
next
  assume "takes_on r cr \<and> resolves r cr issuer issuerSpec issuerStatus secret
          \<and> url_Parse r (URL issuerSpec) = Inr baseUrl
          \<and> \<not> CertificateRequestIsApproved cr"
  with assms show "Call_Requests_Get requestId \<in> set (trace (Reconcile r (Some cr)))"
    using poll_calls_Get [of r cr issuer issuerSpec issuerStatus secret baseUrl requestId] by simp
qed

theorem C2_never_resubmitted_witness:
  "annotation cr_submitted requestIdAnnotation = Some ''req-42''
   \<and> Call_DecentralizedEnroll ''webserver'' ''CSR'' []
       \<notin> set (trace (Reconciles [r_pending, r_completed] (Some cr_submitted) ! 0))
   \<and> Call_DecentralizedEnroll ''webserver'' ''CSR'' []
       \<notin> set (trace (Reconciles [r_pending, r_completed] (Some cr_submitted) ! 1))
   \<and> takes_on r_pending cr_submitted \<and> resolves r_pending cr_submitted () iss1 () cred
   \<and> url_Parse r_pending (URL iss1) = Inr (Parsed ''https://pki.example'')
   \<and> \<not> CertificateRequestIsApproved cr_submitted
   \<and> Call_Requests_Get ''req-42'' \<in> set (trace (Reconcile r_pending (Some cr_submitted)))"
proof -
  have h: "annotation cr_submitted requestIdAnnotation = Some ''req-42''"
    by (simp add: scenario_defs annotation_def)
  have k1: "takes_on r_pending cr_submitted"
    by (simp add: scenario_defs takes_on_def CertificateRequestHasCondition_def)
  have k2: "resolves r_pending cr_submitted () iss1 () cred"
    by (simp add: scenario_defs resolves_def CertificateRequestIsDenied_def)
  have k3: "url_Parse r_pending (URL iss1) = Inr (Parsed ''https://pki.example'')"
    by (simp add: scenario_defs)
  have k4: "\<not> CertificateRequestIsApproved cr_submitted"
    by (simp add: scenario_defs CertificateRequestIsApproved_def)
  note T = C2_never_resubmitted [OF h, of "[r_pending, r_completed]" r_pending "()" iss1 "()" cred
      "Parsed ''https://pki.example''"]
  have m0: "Reconciles [r_pending, r_completed] (Some cr_submitted) ! 0
            \<in> set (Reconciles [r_pending, r_completed] (Some cr_submitted))"
    and m1: "Reconciles [r_pending, r_completed] (Some cr_submitted) ! 1
            \<in> set (Reconciles [r_pending, r_completed] (Some cr_submitted))"
    by simp_all
  from T [THEN conjunct1] m0
  have a0: "Call_DecentralizedEnroll ''webserver'' ''CSR'' []
       \<notin> set (trace (Reconciles [r_pending, r_completed] (Some cr_submitted) ! 0))"
    by blast
  from T [THEN conjunct1] m1
  have a1: "Call_DecentralizedEnroll ''webserver'' ''CSR'' []
       \<notin> set (trace (Reconciles [r_pending, r_completed] (Some cr_submitted) ! 1))"
    by blast
  from mp [OF T [THEN conjunct2]] k1 k2 k3 k4
  have b: "Call_Requests_Get ''req-42'' \<in> set (trace (Reconcile r_pending (Some cr_submitted)))"
    by simp
  from a0 a1 b h k1 k2 k3 k4 show ?thesis by (intro conjI)
qed

theorem C2_not_polled_counterexample:
  "annotation cr_approved requestIdAnnotation = Some ''req-42''
   \<and> takes_on r_pending cr_approved
   \<and> exit (Reconcile r_pending (Some cr_approved)) = Return Result_zero None
   \<and> trace (Reconcile r_pending (Some cr_approved)) =
       [HorizonClient_Init (Parsed ''https://pki.example'') ''admin'' ''secret'',
        Call_Status_Update cr_approved]
   \<and> annotation cr_submitted requestIdAnnotation = Some ''req-42''
   \<and> takes_on r_not_ready cr_submitted
   \<and> exit (Reconcile r_not_ready (Some cr_submitted)) = Return Result_zero (Some (Plain errIssuerNotReady))
   \<and> Call_Requests_Get ''req-42'' \<notin> set (trace (Reconcile r_not_ready (Some cr_submitted)))
   \<and> length (trace (Reconcile r_not_ready (Some cr_submitted))) = 1"
  by (simp add: scenario_defs Reconcile_defs)

text \<open>
  C3, as the code has it. A reconcile that has loaded the request and taken it on
  calls the status update exactly once, as its last action, on every path (it
  returns, with or without an error, or panics). The update is given the request
  in memory as the body left it, with Ready set to False and reason Pending on it
  when the body returned an error; when the update succeeds the store holds the
  status of that request, and when it fails the store holds the status the request
  was loaded with. On the four early returns the status update is not called and
  the store is left as it is.
\<close>

theorem C3_status_update_once:
  assumes "Get_CertificateRequest_err r = None"
  shows "if takes_on r cr
         then \<exists>s ex x.
                Reconcile_body r \<lparr>obj = cr, stored = Some cr, events = [], clock_reads = 0\<rparr> = (s, ex)
                \<and> x = (case ex of
                         Return res None \<Rightarrow> obj s
                       | Return res (Some e) \<Rightarrow>
                           obj (setReadyCondition r ConditionFalse CertificateRequestReasonPending (Error e) s)
                       | Panic \<Rightarrow> obj s)
                \<and> trace (Reconcile r (Some cr)) = events s @ [Call_Status_Update x]
                \<and> (\<forall>y. Call_Status_Update y \<notin> set (events s))
                \<and> map_option Status (store (Reconcile r (Some cr))) =
                    (case Status_Update_err r of
                       None \<Rightarrow> Some (Status x)
                     | Some updateErr \<Rightarrow> Some (Status cr))
         else (\<forall>x. Call_Status_Update x \<notin> set (trace (Reconcile r (Some cr))))
              \<and> store (Reconcile r (Some cr)) = Some cr"
proof (cases "takes_on r cr")
  case True
  let ?s0 = "\<lparr>obj = cr, stored = Some cr, events = [], clock_reads = 0\<rparr>"
  obtain s ex where b: "Reconcile_body r ?s0 = (s, ex)"
    by (cases "Reconcile_body r ?s0")
  define x where "x = (case ex of
                         Return res None \<Rightarrow> obj s
                       | Return res (Some e) \<Rightarrow>
                           obj (setReadyCondition r ConditionFalse CertificateRequestReasonPending (Error e) s)
                       | Panic \<Rightarrow> obj s)"
  from True have t: "Reconcile r (Some cr) = Reconcile_deferred r (s, ex)"
    by (simp add: Reconcile_taken b)
  have tr: "trace (Reconcile r (Some cr)) = events s @ [Call_Status_Update x]"
    unfolding t x_def by (rule deferred_update(1))
  have no: "\<forall>y. Call_Status_Update y \<notin> set (events s)"
    using body_no_Status_Update [of _ r ?s0] b by auto
  have st: "map_option Status (stored s) = Some (Status cr)"
    using body_stored_Status [of ?s0 r] b by simp
  then obtain old where old: "stored s = Some old" by auto
  have "map_option Status (store (Reconcile r (Some cr))) =
          (case Status_Update_err r of
             None \<Rightarrow> Some (Status x)
           | Some updateErr \<Rightarrow> Some (Status cr))"
    unfolding t deferred_update(2) x_def [symmetric] using st old by (simp split: option.splits)
  with b tr no x_def have
    "\<exists>s ex x.
        Reconcile_body r ?s0 = (s, ex)
        \<and> x = (case ex of
                 Return res None \<Rightarrow> obj s
               | Return res (Some e) \<Rightarrow>
                   obj (setReadyCondition r ConditionFalse CertificateRequestReasonPending (Error e) s)
               | Panic \<Rightarrow> obj s)
        \<and> trace (Reconcile r (Some cr)) = events s @ [Call_Status_Update x]
        \<and> (\<forall>y. Call_Status_Update y \<notin> set (events s))
        \<and> map_option Status (store (Reconcile r (Some cr))) =
            (case Status_Update_err r of
               None \<Rightarrow> Some (Status x)
             | Some updateErr \<Rightarrow> Some (Status cr))"
    by (intro exI [of _ s] exI [of _ ex] exI [of _ x] conjI)
  with True show ?thesis by (simp only: if_True)
next
  case False
  with assms Reconcile_ignored(2,3) [of r cr] show ?thesis by auto
qed

theorem C3_status_update_once_witness:
  "Get_CertificateRequest_err r_not_ready = None \<and> takes_on r_not_ready cr_submitted
   \<and> trace (Reconcile r_not_ready (Some cr_submitted)) =
       [Call_Status_Update
          (cr_submitted\<lparr>Status :=
             \<lparr>Conditions = [cond_Pending\<lparr>Message := ''issuer is not ready''\<rparr>],
              Certificate = [], FailureTime = None\<rparr>\<rparr>)]
   \<and> map_option Status (store (Reconcile r_not_ready (Some cr_submitted))) =
       Some \<lparr>Conditions = [cond_Pending\<lparr>Message := ''issuer is not ready''\<rparr>],
             Certificate = [], FailureTime = None\<rparr>"
proof -
  let ?s0 = "\<lparr>obj = cr_submitted, stored = Some cr_submitted, events = [], clock_reads = 0\<rparr>"
  have h1: "Get_CertificateRequest_err r_not_ready = None"
    by (simp add: r_not_ready_def r_pending_def)
  have h2: "takes_on r_not_ready cr_submitted"
    by (simp add: scenario_defs takes_on_def CertificateRequestHasCondition_def)
  have bd: "Reconcile_body r_not_ready ?s0 = (?s0, Return Result_zero (Some errIssuerNotReady))"
    by (simp add: scenario_defs Reconcile_body_def Reconcile_issuer_def CertificateRequestIsDenied_def)
  have up: "Status_Update_err r_not_ready = None"
    by (simp add: r_not_ready_def r_pending_def)
  have x: "obj (setReadyCondition r_not_ready ConditionFalse CertificateRequestReasonPending
                  (Error errIssuerNotReady) ?s0) =
           cr_submitted\<lparr>Status :=
             \<lparr>Conditions = [cond_Pending\<lparr>Message := ''issuer is not ready''\<rparr>],
              Certificate = [], FailureTime = None\<rparr>\<rparr>"
    by (simp add: scenario_defs setReadyCondition_def set_Condition_def SetCertificateRequestCondition_def)
  from C3_status_update_once [OF h1, of cr_submitted] h2
  have "trace (Reconcile r_not_ready (Some cr_submitted)) =
          [Call_Status_Update
             (obj (setReadyCondition r_not_ready ConditionFalse CertificateRequestReasonPending
                     (Error errIssuerNotReady) ?s0))]
        \<and> map_option Status (store (Reconcile r_not_ready (Some cr_submitted))) =
          Some (Status (obj (setReadyCondition r_not_ready ConditionFalse CertificateRequestReasonPending
                     (Error errIssuerNotReady) ?s0)))"
    by (simp only: if_True bd up) auto
  with h1 h2 show ?thesis by (simp only: x) simp
qed

theorem C3_early_return_counterexample:
  "Get_CertificateRequest_err r_pending = None
   \<and> trace (Reconcile r_pending (Some cr_foreign)) = [Log_Info ''Foreign group. Ignoring.'']"
  by (simp add: scenario_defs Reconcile_defs)

text \<open>
  C4, as the code has it. A reconcile that takes on a denied request (its group
  is ours and Ready is not yet True, False with reason Failed or False with reason
  Denied) logs it and hands to the status update a request whose FailureTime is
  the reconciler's clock time if it was unset and the old time otherwise, and
  whose Ready condition is False with reason Denied. It returns the zero result,
  with no error unless the status update fails; when the update succeeds the store
  holds that request. A FailureTime the stored request has is the one it has after
  any sequence of reconciles.
\<close>

theorem C4_denied:
  fixes r :: "('i, 's) CertificateRequestReconciler"
  shows "(takes_on r cr \<and> CertificateRequestIsDenied cr \<longrightarrow>
           (\<exists>cr'. trace (Reconcile r (Some cr)) =
                     [Log_Info ''CertificateRequest has been denied yet. Marking as failed.'',
                      Call_Status_Update cr']
                 \<and> FailureTime (Status cr') =
                     (case FailureTime (Status cr) of None \<Rightarrow> Some (Clock_Now r) | Some t \<Rightarrow> Some t)
                 \<and> CertificateRequestHasCondition cr' Ready_Denied
                 \<and> exit (Reconcile r (Some cr)) =
                     Return Result_zero
                       (case Status_Update_err r of
                          None \<Rightarrow> None
                        | Some updateErr \<Rightarrow> Some (Aggregate [updateErr]))
                 \<and> (Status_Update_err r = None \<longrightarrow> store (Reconcile r (Some cr)) = Some cr')))
       \<and> (FailureTime (Status cr) = Some t \<longrightarrow>
           (\<forall>run \<in> set (Reconciles rs (Some cr)).
              \<exists>c. store run = Some c \<and> FailureTime (Status c) = Some t))"
proof (intro conjI impI)
  assume "takes_on r cr \<and> CertificateRequestIsDenied cr"
  then have "takes_on r cr" and "CertificateRequestIsDenied cr" by simp_all
  then show "\<exists>cr'. trace (Reconcile r (Some cr)) =
                     [Log_Info ''CertificateRequest has been denied yet. Marking as failed.'',
                      Call_Status_Update cr']
                 \<and> FailureTime (Status cr') =
                     (case FailureTime (Status cr) of None \<Rightarrow> Some (Clock_Now r) | Some t \<Rightarrow> Some t)
                 \<and> CertificateRequestHasCondition cr' Ready_Denied
                 \<and> exit (Reconcile r (Some cr)) =
                     Return Result_zero
                       (case Status_Update_err r of
                          None \<Rightarrow> None
                        | Some updateErr \<Rightarrow> Some (Aggregate [updateErr]))
                 \<and> (Status_Update_err r = None \<longrightarrow> store (Reconcile r (Some cr)) = Some cr')"
    by (rule denied_step)
next
  assume "FailureTime (Status cr) = Some t"
  then show "\<forall>run \<in> set (Reconciles rs (Some cr)).
              \<exists>c. store run = Some c \<and> FailureTime (Status c) = Some t"
    by (rule Reconciles_FailureTime)
qed

theorem C4_denied_witness:
  "takes_on r_pending cr_denied \<and> CertificateRequestIsDenied cr_denied
   \<and> Status_Update_err r_pending = None
   \<and> exit (Reconcile r_pending (Some cr_denied)) = Return Result_zero None
   \<and> (\<exists>cr'. store (Reconcile r_pending (Some cr_denied)) = Some cr'
          \<and> FailureTime (Status cr') = Some 7
          \<and> CertificateRequestHasCondition cr' Ready_Denied)
   \<and> FailureTime (Status cr_denied_before) = Some 3
   \<and> (\<exists>c. store (Reconciles [r_pending, r_pending] (Some cr_denied_before) ! 1) = Some c
          \<and> FailureTime (Status c) = Some 3)"
proof -
  have h1: "takes_on r_pending cr_denied"
    by (simp add: scenario_defs takes_on_def CertificateRequestHasCondition_def)
  have h2: "CertificateRequestIsDenied cr_denied"
    by (simp add: scenario_defs CertificateRequestIsDenied_def)
  have h3: "Status_Update_err r_pending = None"
    by (simp add: scenario_defs)
  have h4: "FailureTime (Status cr_denied) = None" "Clock_Now r_pending = 7"
    by (simp_all add: scenario_defs)
  have k: "FailureTime (Status cr_denied_before) = Some 3"
    by (simp add: scenario_defs)
  from mp [OF C4_denied [of r_pending cr_denied, THEN conjunct1] conjI [OF h1 h2]]
  obtain cr' where c:
      "FailureTime (Status cr') =
         (case FailureTime (Status cr_denied) of None \<Rightarrow> Some (Clock_Now r_pending) | Some t \<Rightarrow> Some t)"
      "CertificateRequestHasCondition cr' Ready_Denied"
      "exit (Reconcile r_pending (Some cr_denied)) =
         Return Result_zero
           (case Status_Update_err r_pending of
              None \<Rightarrow> None
            | Some updateErr \<Rightarrow> Some (Aggregate [updateErr]))"
      "Status_Update_err r_pending = None \<longrightarrow> store (Reconcile r_pending (Some cr_denied)) = Some cr'"
    by (elim exE conjE)
  from c(3) h3 have e: "exit (Reconcile r_pending (Some cr_denied)) = Return Result_zero None"
    by simp
  from c(1,2,4) h3 h4
  have a: "\<exists>cr'. store (Reconcile r_pending (Some cr_denied)) = Some cr'
          \<and> FailureTime (Status cr') = Some 7
          \<and> CertificateRequestHasCondition cr' Ready_Denied"
    by (intro exI [of _ cr']) simp
  have m: "Reconciles [r_pending, r_pending] (Some cr_denied_before) ! 1
           \<in> set (Reconciles [r_pending, r_pending] (Some cr_denied_before))"
    by simp
  from C4_denied [of r_pending cr_denied_before 3 "[r_pending, r_pending]"] k m
  have b: "\<exists>c. store (Reconciles [r_pending, r_pending] (Some cr_denied_before) ! 1) = Some c
          \<and> FailureTime (Status c) = Some 3"
    by blast
  from e a b h1 h2 h3 k show ?thesis by (intro conjI)
qed

theorem C4_already_failed_counterexample:
  "CertificateRequestIsDenied cr_failed_denied
   \<and> \<not> CertificateRequestHasCondition cr_failed_denied Ready_Denied
   \<and> FailureTime (Status cr_failed_denied) = None
   \<and> exit (Reconcile r_pending (Some cr_failed_denied)) = Return Result_zero None
   \<and> store (Reconcile r_pending (Some cr_failed_denied)) = Some cr_failed_denied
   \<and> trace (Reconcile r_pending (Some cr_failed_denied)) = [Log_Info ''CertificateRequest is Failed. Ignoring.'']"
  by (simp add: scenario_defs Reconcile_defs)

text \<open>
  C5. A request of a foreign group, or whose Ready condition is already True,
  False with reason Failed or False with reason Denied, is left alone: the
  reconcile returns the zero result and no error, leaves the stored request as it
  is, and does nothing but log one line (no call to Horizon, no update).
\<close>

theorem C5_ignored:
  assumes "Get_CertificateRequest_err r = None"
    and "Group (IssuerRef (Spec cr)) \<noteq> GroupVersion_Group r
         \<or> CertificateRequestHasCondition cr Ready_True
         \<or> CertificateRequestHasCondition cr Ready_Failed
         \<or> CertificateRequestHasCondition cr Ready_Denied"
  shows "exit (Reconcile r (Some cr)) = Return Result_zero None
       \<and> store (Reconcile r (Some cr)) = Some cr
       \<and> (\<exists>msg. trace (Reconcile r (Some cr)) = [Log_Info msg])"
  using assms by (auto simp: Reconcile_def)

theorem C5_ignored_witness:
  "Get_CertificateRequest_err r_pending = None
   \<and> CertificateRequestHasCondition cr_issued Ready_True
   \<and> exit (Reconcile r_pending (Some cr_issued)) = Return Result_zero None
   \<and> store (Reconcile r_pending (Some cr_issued)) = Some cr_issued
   \<and> (\<exists>msg. trace (Reconcile r_pending (Some cr_issued)) = [Log_Info msg])"
proof -
  have h1: "Get_CertificateRequest_err r_pending = None"
    by (simp add: r_pending_def)
  have h2: "CertificateRequestHasCondition cr_issued Ready_True"
    by (simp add: scenario_defs CertificateRequestHasCondition_def)
  from h1 h2 C5_ignored [OF h1 disjI2 [OF disjI1 [OF h2]]] show ?thesis by simp
qed

text \<open>
  C6, as the code has it. Take a request with its correlation annotation that is
  not approved, and reconciles that each take it on, resolve the issuer, its
  secret and the base URL, and find the Horizon request not "completed". Every one
  of them calls get-by-id with the id of the annotation and nothing else at
  Horizon, hands the request unchanged to the status update (so annotation,
  certificate and the Ready condition stay as they are) and leaves the stored
  request as it is. When the status update succeeds it returns requeue after one
  minute, the same at every repetition; when the update fails it returns the zero
  result and the update's error.
\<close>

theorem C6_pending_poll:
  assumes "\<not> CertificateRequestIsApproved cr"
    and "annotation cr requestIdAnnotation = Some requestId"
    and "\<forall>r \<in> set rs. takes_on r cr
           \<and> (\<exists>issuer issuerSpec issuerStatus secret baseUrl request.
                 resolves r cr issuer issuerSpec issuerStatus secret
                 \<and> url_Parse r (URL issuerSpec) = Inr baseUrl
                 \<and> Requests_Get r requestId = Inr request
                 \<and> req_Status request \<noteq> ''completed'')"
  shows "Reconciles rs (Some cr) = map (\<lambda>r. Reconcile r (Some cr)) rs
       \<and> (\<forall>r \<in> set rs.
             store (Reconcile r (Some cr)) = Some cr
             \<and> (\<exists>baseUrl username password.
                   trace (Reconcile r (Some cr)) =
                     [HorizonClient_Init baseUrl username password,
                      Log_Info (''Pulling request '' @ requestId),
                      Call_Requests_Get requestId,
                      Call_Status_Update cr])
             \<and> exit (Reconcile r (Some cr)) =
                 (case Status_Update_err r of
                    None \<Rightarrow> Return \<lparr>Requeue = True, RequeueAfter = time_Minute\<rparr> None
                  | Some updateErr \<Rightarrow> Return Result_zero (Some (Aggregate [updateErr]))))"
proof -
  have step: "store (Reconcile r (Some cr)) = Some cr
             \<and> (\<exists>baseUrl username password.
                   trace (Reconcile r (Some cr)) =
                     [HorizonClient_Init baseUrl username password,
                      Log_Info (''Pulling request '' @ requestId),
                      Call_Requests_Get requestId,
                      Call_Status_Update cr])
             \<and> exit (Reconcile r (Some cr)) =
                 (case Status_Update_err r of
                    None \<Rightarrow> Return \<lparr>Requeue = True, RequeueAfter = time_Minute\<rparr> None
                  | Some updateErr \<Rightarrow> Return Result_zero (Some (Aggregate [updateErr])))"
    if "r \<in> set rs" for r
  proof -
    from that assms(3) obtain issuer issuerSpec issuerStatus secret baseUrl request where
      h: "takes_on r cr" "resolves r cr issuer issuerSpec issuerStatus secret"
         "url_Parse r (URL issuerSpec) = Inr baseUrl" "Requests_Get r requestId = Inr request"
         "req_Status request \<noteq> ''completed''"
      by blast
    note p = pending_poll [OF h(1) h(2) h(3) assms(1) assms(2) h(4) h(5)]
    from p(1) have "\<exists>baseUrl username password.
                   trace (Reconcile r (Some cr)) =
                     [HorizonClient_Init baseUrl username password,
                      Log_Info (''Pulling request '' @ requestId),
                      Call_Requests_Get requestId,
                      Call_Status_Update cr]"
      by blast
    with p(2) p(3) show ?thesis by simp
  qed
  then have "\<forall>r \<in> set rs. store (Reconcile r (Some cr)) = Some cr" by blast
  then have "Reconciles rs (Some cr) = map (\<lambda>r. Reconcile r (Some cr)) rs"
    by (rule Reconciles_unchanged)
  with step show ?thesis by blast
qed

theorem C6_pending_poll_witness:
  "\<not> CertificateRequestIsApproved cr_submitted
   \<and> annotation cr_submitted requestIdAnnotation = Some ''req-42''
   \<and> takes_on r_pending cr_submitted
   \<and> resolves r_pending cr_submitted () iss1 () cred
   \<and> url_Parse r_pending (URL iss1) = Inr (Parsed ''https://pki.example'')
   \<and> Requests_Get r_pending ''req-42'' = Inr (req_42 ''pending'' [])
   \<and> req_Status (req_42 ''pending'' []) \<noteq> ''completed''
   \<and> Status_Update_err r_pending = None
   \<and> Reconciles [r_pending, r_pending] (Some cr_submitted)
       = [Reconcile r_pending (Some cr_submitted), Reconcile r_pending (Some cr_submitted)]
   \<and> store (Reconcile r_pending (Some cr_submitted)) = Some cr_submitted
   \<and> exit (Reconcile r_pending (Some cr_submitted))
       = Return \<lparr>Requeue = True, RequeueAfter = time_Minute\<rparr> None"
proof -
  have h1: "\<not> CertificateRequestIsApproved cr_submitted"
    by (simp add: scenario_defs CertificateRequestIsApproved_def)
  have h2: "annotation cr_submitted requestIdAnnotation = Some ''req-42''"
    by (simp add: scenario_defs annotation_def)
  have t: "takes_on r_pending cr_submitted"
    by (simp add: scenario_defs takes_on_def CertificateRequestHasCondition_def)
  have p: "resolves r_pending cr_submitted () iss1 () cred
           \<and> url_Parse r_pending (URL iss1) = Inr (Parsed ''https://pki.example'')
           \<and> Requests_Get r_pending ''req-42'' = Inr (req_42 ''pending'' [])
           \<and> req_Status (req_42 ''pending'' []) \<noteq> ''completed''"
    by (simp add: scenario_defs resolves_def CertificateRequestIsDenied_def)
  have h3: "\<forall>r \<in> set [r_pending, r_pending]. takes_on r cr_submitted
           \<and> (\<exists>issuer issuerSpec issuerStatus secret baseUrl request.
                 resolves r cr_submitted issuer issuerSpec issuerStatus secret
                 \<and> url_Parse r (URL issuerSpec) = Inr baseUrl
                 \<and> Requests_Get r ''req-42'' = Inr request
                 \<and> req_Status request \<noteq> ''completed'')"
    using t p by auto
  have h4: "Status_Update_err r_pending = None"
    by (simp add: scenario_defs)
  from C6_pending_poll [OF h1 h2 h3] h4
  have "Reconciles [r_pending, r_pending] (Some cr_submitted)
       = [Reconcile r_pending (Some cr_submitted), Reconcile r_pending (Some cr_submitted)]
   \<and> store (Reconcile r_pending (Some cr_submitted)) = Some cr_submitted
   \<and> exit (Reconcile r_pending (Some cr_submitted))
       = Return \<lparr>Requeue = True, RequeueAfter = time_Minute\<rparr> None"
    by simp
  with h1 h2 t p h4 show ?thesis by simp
qed

theorem C6_no_directive_counterexample:
  "annotation cr_approved requestIdAnnotation = Some ''req-42''
   \<and> Requests_Get r_pending ''req-42'' = Inr (req_42 ''pending'' [])
   \<and> req_Status (req_42 ''pending'' []) \<noteq> ''completed''
   \<and> takes_on r_pending cr_approved
   \<and> exit (Reconcile r_pending (Some cr_approved)) = Return Result_zero None
   \<and> annotation cr_submitted requestIdAnnotation = Some ''req-42''
   \<and> Requests_Get r_persist_fails ''req-42'' = Inr (req_42 ''pending'' [])
   \<and> takes_on r_persist_fails cr_submitted
   \<and> trace (Reconcile r_persist_fails (Some cr_submitted)) =
       [HorizonClient_Init (Parsed ''https://pki.example'') ''admin'' ''secret'',
        Log_Info ''Pulling request req-42'',
        Call_Requests_Get ''req-42'',
        Call_Status_Update cr_submitted]
   \<and> exit (Reconcile r_persist_fails (Some cr_submitted)) =
       Return Result_zero (Some (Aggregate [New ''conflict'']))"
  by (simp add: scenario_defs Reconcile_defs)

text \<open>
  C7, as the code has it. When the body of a reconcile returns an error, the
  deferred function sets Ready to False with reason Pending and the error's text
  as message, and the status update (the only one, and the last action) is made
  with that request; the reconcile returns the zero result with the error
  itself, or, when the status update fails too, with the aggregate of both. Every
  error a reconcile returns after taking the request on is such an error, its
  condition set in the request handed to the status update, or is the failure of
  the status update alone, for which no condition is set; and a failure to get
  the request is returned before anything is written.
\<close>

theorem C7_error_then_persist:
  fixes r :: "('i, 's) CertificateRequestReconciler"
  shows "(takes_on r cr
          \<and> Reconcile_body r \<lparr>obj = cr, stored = Some cr, events = [], clock_reads = 0\<rparr>
              = (s, Return res (Some e)) \<longrightarrow>
            (\<exists>cr'. trace (Reconcile r (Some cr)) = events s @ [Call_Status_Update cr']
                \<and> (\<exists>c. Ready_condition cr' = Some c \<and> cond_Status c = ConditionFalse
                       \<and> Reason c = CertificateRequestReasonPending \<and> Message c = Error e))
            \<and> (\<forall>x. Call_Status_Update x \<notin> set (events s))
            \<and> exit (Reconcile r (Some cr)) =
                Return Result_zero
                  (Some (case Status_Update_err r of
                           None \<Rightarrow> Plain e
                         | Some updateErr \<Rightarrow> Aggregate [e, updateErr])))
       \<and> (takes_on r cr \<and> exit (Reconcile r (Some cr)) = Return res' (Some err) \<longrightarrow>
            res' = Result_zero
            \<and> (\<exists>before cr'. trace (Reconcile r (Some cr)) = before @ [Call_Status_Update cr']
                 \<and> ((\<exists>e. (err = Plain e \<or> (\<exists>updateErr. err = Aggregate [e, updateErr]))
                          \<and> (\<exists>c. Ready_condition cr' = Some c \<and> cond_Status c = ConditionFalse
                                 \<and> Reason c = CertificateRequestReasonPending \<and> Message c = Error e))
                     \<or> (\<exists>updateErr. err = Aggregate [updateErr]
                            \<and> Status_Update_err r = Some updateErr))))
       \<and> (Get_CertificateRequest_err r = Some getErr \<longrightarrow>
            Reconcile r w =
              \<lparr>exit = Return Result_zero (Some (Plain (New (''unexpected get error: '' @ Error getErr)))),
               store = w, trace = []\<rparr>)"
proof (intro conjI impI)
  let ?s0 = "\<lparr>obj = cr, stored = Some cr, events = [], clock_reads = 0\<rparr>"
  assume a: "takes_on r cr \<and> Reconcile_body r ?s0 = (s, Return res (Some e))"
  define s1 where "s1 = setReadyCondition r ConditionFalse CertificateRequestReasonPending (Error e) s"
  have R: "Reconcile r (Some cr) = Reconcile_deferred r (s, Return res (Some e))"
    using a by (simp add: Reconcile_taken)
  have z: "res = Result_zero"
    using a body_error_zero [of r ?s0 res e] by simp
  have tr: "trace (Reconcile r (Some cr)) = events s @ [Call_Status_Update (obj s1)]"
    by (simp add: R deferred_error(1) s1_def)
  have rc: "\<exists>c. Ready_condition (obj s1) = Some c \<and> cond_Status c = ConditionFalse
                      \<and> Reason c = CertificateRequestReasonPending \<and> Message c = Error e"
    unfolding s1_def by (rule setReadyCondition_Ready)
  show "\<exists>cr'. trace (Reconcile r (Some cr)) = events s @ [Call_Status_Update cr']
                \<and> (\<exists>c. Ready_condition cr' = Some c \<and> cond_Status c = ConditionFalse
                       \<and> Reason c = CertificateRequestReasonPending \<and> Message c = Error e)"
    by (intro exI [of _ "obj s1"] conjI tr rc)
  show "\<forall>x. Call_Status_Update x \<notin> set (events s)"
    using a body_no_Status_Update [of _ r ?s0] by auto
  show "exit (Reconcile r (Some cr)) =
                Return Result_zero
                  (Some (case Status_Update_err r of
                           None \<Rightarrow> Plain e
                         | Some updateErr \<Rightarrow> Aggregate [e, updateErr]))"
    by (simp add: R deferred_error(2) z split: option.splits)
next
  let ?s0 = "\<lparr>obj = cr, stored = Some cr, events = [], clock_reads = 0\<rparr>"
  assume a: "takes_on r cr \<and> exit (Reconcile r (Some cr)) = Return res' (Some err)"
  obtain s2 ex where b: "Reconcile_body r ?s0 = (s2, ex)" by (cases "Reconcile_body r ?s0")
  have R: "Reconcile r (Some cr) = Reconcile_deferred r (s2, ex)"
    using a b by (simp add: Reconcile_taken)
  from a R have x: "exit (Reconcile_deferred r (s2, ex)) = Return res' (Some err)" by simp
  from x show "res' = Result_zero"
  proof (cases rule: deferred_exit_cases)
    case (plain e)
    with b body_error_zero [of r ?s0 res' e] show ?thesis by simp
  qed simp_all
  from x show "\<exists>before cr'. trace (Reconcile r (Some cr)) = before @ [Call_Status_Update cr']
                 \<and> ((\<exists>e. (err = Plain e \<or> (\<exists>updateErr. err = Aggregate [e, updateErr]))
                          \<and> (\<exists>c. Ready_condition cr' = Some c \<and> cond_Status c = ConditionFalse
                                 \<and> Reason c = CertificateRequestReasonPending \<and> Message c = Error e))
                     \<or> (\<exists>updateErr. err = Aggregate [updateErr]
                            \<and> Status_Update_err r = Some updateErr))"
  proof (cases rule: deferred_exit_cases)
    case (persist u res0)
    have tr: "trace (Reconcile r (Some cr)) = events s2 @ [Call_Status_Update (obj s2)]"
      by (simp add: R persist(1) deferred_no_error(1))
    with persist show ?thesis by (intro exI [of _ "events s2"] exI [of _ "obj s2"]) simp
  next
    case (plain e0)
    define s1 where "s1 = setReadyCondition r ConditionFalse CertificateRequestReasonPending (Error e0) s2"
    have tr: "trace (Reconcile r (Some cr)) = events s2 @ [Call_Status_Update (obj s1)]"
      by (simp add: R plain(1) deferred_error(1) s1_def)
    have rc: "\<exists>c. Ready_condition (obj s1) = Some c \<and> cond_Status c = ConditionFalse
                    \<and> Reason c = CertificateRequestReasonPending \<and> Message c = Error e0"
      unfolding s1_def by (rule setReadyCondition_Ready)
    with plain(2) have "\<exists>e. (err = Plain e \<or> (\<exists>updateErr. err = Aggregate [e, updateErr]))
                        \<and> (\<exists>c. Ready_condition (obj s1) = Some c \<and> cond_Status c = ConditionFalse
                               \<and> Reason c = CertificateRequestReasonPending \<and> Message c = Error e)"
      by (intro exI [of _ e0]) simp
    with tr show ?thesis by (intro exI [of _ "events s2"] exI [of _ "obj s1"]) simp
  next
    case (both e0 res0 u)
    define s1 where "s1 = setReadyCondition r ConditionFalse CertificateRequestReasonPending (Error e0) s2"
    have tr: "trace (Reconcile r (Some cr)) = events s2 @ [Call_Status_Update (obj s1)]"
      by (simp add: R both(1) deferred_error(1) s1_def)
    have rc: "\<exists>c. Ready_condition (obj s1) = Some c \<and> cond_Status c = ConditionFalse
                    \<and> Reason c = CertificateRequestReasonPending \<and> Message c = Error e0"
      unfolding s1_def by (rule setReadyCondition_Ready)
    with both(2) have "\<exists>e. (err = Plain e \<or> (\<exists>updateErr. err = Aggregate [e, updateErr]))
                        \<and> (\<exists>c. Ready_condition (obj s1) = Some c \<and> cond_Status c = ConditionFalse
                               \<and> Reason c = CertificateRequestReasonPending \<and> Message c = Error e)"
      by (intro exI [of _ e0]) simp
    with tr show ?thesis by (intro exI [of _ "events s2"] exI [of _ "obj s1"]) simp
  qed
next
  assume "Get_CertificateRequest_err r = Some getErr"
  then show "Reconcile r w =
              \<lparr>exit = Return Result_zero (Some (Plain (New (''unexpected get error: '' @ Error getErr)))),
               store = w, trace = []\<rparr>"
    by (simp add: Reconcile_def)
qed

theorem C7_error_then_persist_witness:
  "takes_on r_not_ready cr_new
   \<and> Reconcile_body r_not_ready \<lparr>obj = cr_new, stored = Some cr_new, events = [], clock_reads = 0\<rparr>
       = (\<lparr>obj = cr_new, stored = Some cr_new, events = [], clock_reads = 0\<rparr>,
          Return Result_zero (Some errIssuerNotReady))
   \<and> Status_Update_err r_not_ready = None
   \<and> exit (Reconcile r_not_ready (Some cr_new)) = Return Result_zero (Some (Plain errIssuerNotReady))
   \<and> (\<exists>before cr' c. trace (Reconcile r_not_ready (Some cr_new)) = before @ [Call_Status_Update cr']
         \<and> Ready_condition cr' = Some c \<and> cond_Status c = ConditionFalse
         \<and> Reason c = CertificateRequestReasonPending \<and> Message c = ''issuer is not ready'')
   \<and> Get_CertificateRequest_err r_get_fails = Some (New ''timeout'')
   \<and> exit (Reconcile r_get_fails (Some cr_new)) =
       Return Result_zero (Some (Plain (New ''unexpected get error: timeout'')))"
proof -
  have h1: "takes_on r_not_ready cr_new"
    by (simp add: scenario_defs takes_on_def CertificateRequestHasCondition_def)
  have h2: "Reconcile_body r_not_ready \<lparr>obj = cr_new, stored = Some cr_new, events = [], clock_reads = 0\<rparr>
       = (\<lparr>obj = cr_new, stored = Some cr_new, events = [], clock_reads = 0\<rparr>,
          Return Result_zero (Some errIssuerNotReady))"
    by (simp add: scenario_defs Reconcile_body_def Reconcile_issuer_def CertificateRequestIsDenied_def)
  have h3: "Status_Update_err r_not_ready = None"
    by (simp add: scenario_defs)
  have g: "Get_CertificateRequest_err r_get_fails = Some (New ''timeout'')"
    by (simp add: scenario_defs)
  note T = C7_error_then_persist [of r_not_ready cr_new
      "\<lparr>obj = cr_new, stored = Some cr_new, events = [], clock_reads = 0\<rparr>"
      Result_zero errIssuerNotReady Result_zero "Plain errIssuerNotReady"]
  from mp [OF T [THEN conjunct1] conjI [OF h1 h2]] h3
  have a: "exit (Reconcile r_not_ready (Some cr_new)) = Return Result_zero (Some (Plain errIssuerNotReady))"
    by simp
  from mp [OF T [THEN conjunct2, THEN conjunct1] conjI [OF h1 a]]
  have b: "\<exists>before cr' c. trace (Reconcile r_not_ready (Some cr_new)) = before @ [Call_Status_Update cr']
         \<and> Ready_condition cr' = Some c \<and> cond_Status c = ConditionFalse
         \<and> Reason c = CertificateRequestReasonPending \<and> Message c = ''issuer is not ready''"
    by auto
  note G = C7_error_then_persist [where r = r_get_fails and getErr = "New ''timeout''"
      and w = "Some cr_new"]
  from mp [OF G [THEN conjunct2, THEN conjunct2] g]
  have c: "exit (Reconcile r_get_fails (Some cr_new)) =
       Return Result_zero (Some (Plain (New ''unexpected get error: timeout'')))"
    by simp
  from a b c g h1 h2 h3 show ?thesis by (intro conjI)
qed

theorem C7_update_alone_counterexample:
  "takes_on r_persist_fails cr_submitted
   \<and> exit (Reconcile r_persist_fails (Some cr_submitted)) =
       Return Result_zero (Some (Aggregate [New ''conflict'']))
   \<and> trace (Reconcile r_persist_fails (Some cr_submitted)) =
       [HorizonClient_Init (Parsed ''https://pki.example'') ''admin'' ''secret'',
        Log_Info ''Pulling request req-42'',
        Call_Requests_Get ''req-42'',
        Call_Status_Update cr_submitted]
   \<and> store (Reconcile r_persist_fails (Some cr_submitted)) = Some cr_submitted
   \<and> Ready_condition cr_submitted = Some cond_Pending
   \<and> Message cond_Pending = ''Submitted request to Horizon''
   \<and> Reconcile r_get_fails (Some cr_new) =
       \<lparr>exit = Return Result_zero (Some (Plain (New ''unexpected get error: timeout''))),
        store = Some cr_new, trace = []\<rparr>"
  by (simp add: scenario_defs Reconcile_defs)

text \<open>
  C8, as the code has it. When the kind of the issuerRef is not registered in the
  scheme, a reconcile that has taken the request on (its group is ours and Ready
  is not terminal) and found it not denied logs the error and sets Ready to False
  with reason Failed in the request it hands to the status update. It returns the
  zero result, with no error unless the status update fails; when the update
  succeeds the stored request is that request, which is terminal: every later
  reconcile ignores it.
\<close>

theorem C8_unrecognised_kind:
  fixes r :: "('i, 's) CertificateRequestReconciler"
  assumes "takes_on r cr"
    and "\<not> CertificateRequestIsDenied cr"
    and "Scheme_New r (Kind (IssuerRef (Spec cr))) = Inl err"
  shows "\<exists>cr'. trace (Reconcile r (Some cr)) =
                 [Log_Error (Errorf_w_v errIssuerRef err) ''Unrecognised kind. Ignoring.'',
                  Call_Status_Update cr']
             \<and> CertificateRequestHasCondition cr' Ready_Failed
             \<and> exit (Reconcile r (Some cr)) =
                 Return Result_zero
                   (case Status_Update_err r of
                      None \<Rightarrow> None
                    | Some updateErr \<Rightarrow> Some (Aggregate [updateErr]))
             \<and> (Status_Update_err r = None \<longrightarrow>
                  store (Reconcile r (Some cr)) = Some cr'
                  \<and> (\<forall>r' :: ('i, 's) CertificateRequestReconciler. Get_CertificateRequest_err r' = None \<longrightarrow>
                       exit (Reconcile r' (Some cr')) = Return Result_zero None
                       \<and> (\<exists>msg. trace (Reconcile r' (Some cr')) = [Log_Info msg])))"
proof -
  let ?s0 = "\<lparr>obj = cr, stored = Some cr, events = [], clock_reads = 0\<rparr>"
  let ?err = "Errorf_w_v errIssuerRef err"
  let ?s1 = "emit (Log_Error ?err ''Unrecognised kind. Ignoring.'') ?s0"
  have b: "Reconcile_body r ?s0 =
     (setReadyCondition r ConditionFalse CertificateRequestReasonFailed (Error ?err) ?s1,
      Return Result_zero None)"
    using assms(2,3) by (simp add: Reconcile_body_def Let_def)
  have "stored ?s1 = Some cr" and "obj ?s1 = cr" by simp_all
  from absorbed_Failed [OF assms(1) b this] show ?thesis by simp
qed

theorem C8_unrecognised_kind_witness:
  "takes_on r_pending cr_unknown_kind
   \<and> \<not> CertificateRequestIsDenied cr_unknown_kind
   \<and> Scheme_New r_pending (Kind (IssuerRef (Spec cr_unknown_kind))) = Inl (New ''no kind is registered'')
   \<and> Status_Update_err r_pending = None
   \<and> exit (Reconcile r_pending (Some cr_unknown_kind)) = Return Result_zero None
   \<and> (\<exists>cr'. trace (Reconcile r_pending (Some cr_unknown_kind)) =
          [Log_Error (Errorf_w_v errIssuerRef (New ''no kind is registered''))
             ''Unrecognised kind. Ignoring.'',
           Call_Status_Update cr']
        \<and> CertificateRequestHasCondition cr' Ready_Failed
        \<and> store (Reconcile r_pending (Some cr_unknown_kind)) = Some cr')"
proof -
  have h1: "takes_on r_pending cr_unknown_kind"
    by (simp add: scenario_defs takes_on_def CertificateRequestHasCondition_def)
  have h2: "\<not> CertificateRequestIsDenied cr_unknown_kind"
    by (simp add: scenario_defs CertificateRequestIsDenied_def)
  have h3: "Scheme_New r_pending (Kind (IssuerRef (Spec cr_unknown_kind))) = Inl (New ''no kind is registered'')"
    by (simp add: scenario_defs)
  have h4: "Status_Update_err r_pending = None"
    by (simp add: scenario_defs)
  from C8_unrecognised_kind [OF h1 h2 h3] obtain cr' where
    c: "trace (Reconcile r_pending (Some cr_unknown_kind)) =
          [Log_Error (Errorf_w_v errIssuerRef (New ''no kind is registered''))
             ''Unrecognised kind. Ignoring.'',
           Call_Status_Update cr']"
       "CertificateRequestHasCondition cr' Ready_Failed"
       "exit (Reconcile r_pending (Some cr_unknown_kind)) =
          Return Result_zero
            (case Status_Update_err r_pending of
               None \<Rightarrow> None
             | Some updateErr \<Rightarrow> Some (Aggregate [updateErr]))"
       "Status_Update_err r_pending = None \<longrightarrow>
          store (Reconcile r_pending (Some cr_unknown_kind)) = Some cr'
          \<and> (\<forall>r' :: (unit, unit) CertificateRequestReconciler. Get_CertificateRequest_err r' = None \<longrightarrow>
                exit (Reconcile r' (Some cr')) = Return Result_zero None
                \<and> (\<exists>msg. trace (Reconcile r' (Some cr')) = [Log_Info msg]))"
    by (elim exE conjE)
  from c(3) h4 have e: "exit (Reconcile r_pending (Some cr_unknown_kind)) = Return Result_zero None"
    by simp
  from c(4) h4 have s: "store (Reconcile r_pending (Some cr_unknown_kind)) = Some cr'"
    by simp
  from c(1,2) s have "\<exists>cr'. trace (Reconcile r_pending (Some cr_unknown_kind)) =
          [Log_Error (Errorf_w_v errIssuerRef (New ''no kind is registered''))
             ''Unrecognised kind. Ignoring.'',
           Call_Status_Update cr']
        \<and> CertificateRequestHasCondition cr' Ready_Failed
        \<and> store (Reconcile r_pending (Some cr_unknown_kind)) = Some cr'"
    by (intro exI [of _ cr'] conjI)
  with h1 h2 h3 h4 e show ?thesis by (intro conjI)
qed

theorem C8_denied_first_counterexample:
  "Scheme_New r_pending (Kind (IssuerRef (Spec cr_denied_unknown_kind))) = Inl (New ''no kind is registered'')
   \<and> exit (Reconcile r_pending (Some cr_denied_unknown_kind)) = Return Result_zero None
   \<and> map_option (\<lambda>c. Conditions (Status c)) (store (Reconcile r_pending (Some cr_denied_unknown_kind))) =
       Some [cond_Denied,
             \<lparr>Type = CertificateRequestConditionReady, cond_Status = ConditionFalse,
              LastTransitionTime = Some 10, Reason = CertificateRequestReasonDenied,
              Message = ''The CertificateRequest was denied by an approval controller''\<rparr>]
   \<and> map_option (\<lambda>c. CertificateRequestHasCondition c Ready_Failed)
         (store (Reconcile r_pending (Some cr_denied_unknown_kind))) = Some False
   \<and> length (trace (Reconcile r_pending (Some cr_denied_unknown_kind))) = 2
   \<and> hd (trace (Reconcile r_pending (Some cr_denied_unknown_kind))) =
       Log_Info ''CertificateRequest has been denied yet. Marking as failed.''"
  by (simp add: scenario_defs Reconcile_defs)

text \<open>
  C9, as the code has it. A base URL that does not parse makes the reconcile
  return the wrapped error \<open>errInvalidBaseUrl\<close> (aggregated with the error of the
  status update, if that fails too) after setting Ready to False with reason
  Pending, which is not terminal: the stored request is taken on again by the next
  reconcile. An issuer kind that is registered but not handled is absorbed
  instead: Ready is set to False with reason Failed, no error is returned unless
  the status update fails, and with the status persisted later reconciles ignore
  the request.
\<close>

theorem C9_url_and_variant:
  fixes r :: "('i, 's) CertificateRequestReconciler"
  shows "(takes_on r cr \<and> resolves r cr issuer issuerSpec issuerStatus secret
          \<and> url_Parse r (URL issuerSpec) = Inl err \<longrightarrow>
            (\<exists>cr'. trace (Reconcile r (Some cr)) = [Call_Status_Update cr']
               \<and> (\<exists>c. Ready_condition cr' = Some c \<and> cond_Status c = ConditionFalse
                      \<and> Reason c = CertificateRequestReasonPending
                      \<and> Message c = Error (Errorf_w_v errInvalidBaseUrl err)))
            \<and> exit (Reconcile r (Some cr)) =
                Return Result_zero
                  (Some (case Status_Update_err r of
                           None \<Rightarrow> Plain (Errorf_w_v errInvalidBaseUrl err)
                         | Some updateErr \<Rightarrow> Aggregate [Errorf_w_v errInvalidBaseUrl err, updateErr]))
            \<and> (\<exists>cr''. store (Reconcile r (Some cr)) = Some cr'' \<and> takes_on r cr''))
       \<and> (takes_on r cr \<and> \<not> CertificateRequestIsDenied cr
          \<and> Scheme_New r (Kind (IssuerRef (Spec cr))) = Inr (OtherObject t) \<longrightarrow>
            (\<exists>cr'. trace (Reconcile r (Some cr)) =
                 [Log_Error (New (''unexpected issuer type: '' @ t))
                    ''The issuerRef referred to a registered Kind which is not yet handled. Ignoring.'',
                  Call_Status_Update cr']
               \<and> CertificateRequestHasCondition cr' Ready_Failed
             \<and> exit (Reconcile r (Some cr)) =
                 Return Result_zero
                   (case Status_Update_err r of
                      None \<Rightarrow> None
                    | Some updateErr \<Rightarrow> Some (Aggregate [updateErr]))
             \<and> (Status_Update_err r = None \<longrightarrow>
                  store (Reconcile r (Some cr)) = Some cr'
                  \<and> (\<forall>r' :: ('i, 's) CertificateRequestReconciler. Get_CertificateRequest_err r' = None \<longrightarrow>
                       exit (Reconcile r' (Some cr')) = Return Result_zero None
                       \<and> (\<exists>msg. trace (Reconcile r' (Some cr')) = [Log_Info msg])))))"
proof (intro conjI impI)
  let ?s0 = "\<lparr>obj = cr, stored = Some cr, events = [], clock_reads = 0\<rparr>"
  assume a: "takes_on r cr \<and> resolves r cr issuer issuerSpec issuerStatus secret
          \<and> url_Parse r (URL issuerSpec) = Inl err"
  let ?e = "Errorf_w_v errInvalidBaseUrl err"
  define s1 where "s1 = setReadyCondition r ConditionFalse CertificateRequestReasonPending (Error ?e) ?s0"
  have R: "Reconcile r (Some cr) = Reconcile_deferred r (?s0, Return Result_zero (Some ?e))"
    using a Reconcile_resolved [of r cr issuer issuerSpec issuerStatus secret]
    by (simp add: Reconcile_sign_def)
  have tr: "trace (Reconcile r (Some cr)) = [Call_Status_Update (obj s1)]"
    by (simp add: R deferred_error(1) s1_def)
  have rc: "\<exists>c. Ready_condition (obj s1) = Some c \<and> cond_Status c = ConditionFalse
                      \<and> Reason c = CertificateRequestReasonPending \<and> Message c = Error ?e"
    unfolding s1_def by (rule setReadyCondition_Ready)
  from tr rc show "\<exists>cr'. trace (Reconcile r (Some cr)) = [Call_Status_Update cr']
               \<and> (\<exists>c. Ready_condition cr' = Some c \<and> cond_Status c = ConditionFalse
                      \<and> Reason c = CertificateRequestReasonPending
                      \<and> Message c = Error ?e)"
    by blast
  show "exit (Reconcile r (Some cr)) =
                Return Result_zero
                  (Some (case Status_Update_err r of
                           None \<Rightarrow> Plain ?e
                         | Some updateErr \<Rightarrow> Aggregate [?e, updateErr]))"
    by (simp add: R deferred_error(2) split: option.splits)
  have "takes_on r (cr\<lparr>Status := Status (obj s1)\<rparr>)"
    unfolding s1_def using a by (intro takes_on_Pending) simp_all
  then show "\<exists>cr''. store (Reconcile r (Some cr)) = Some cr'' \<and> takes_on r cr''"
    using a by (cases "Status_Update_err r") (simp_all add: R deferred_error(3) s1_def)
next
  let ?s0 = "\<lparr>obj = cr, stored = Some cr, events = [], clock_reads = 0\<rparr>"
  assume a: "takes_on r cr \<and> \<not> CertificateRequestIsDenied cr
          \<and> Scheme_New r (Kind (IssuerRef (Spec cr))) = Inr (OtherObject t)"
  let ?err = "New (''unexpected issuer type: '' @ t)"
  let ?s1 = "emit (Log_Error ?err
     ''The issuerRef referred to a registered Kind which is not yet handled. Ignoring.'') ?s0"
  have b: "Reconcile_body r ?s0 =
     (setReadyCondition r ConditionFalse CertificateRequestReasonFailed (Error ?err) ?s1,
      Return Result_zero None)"
    using a by (simp add: Reconcile_body_def Let_def)
  have "stored ?s1 = Some cr" and "obj ?s1 = cr" by simp_all
  from absorbed_Failed [OF _ b this] a
  show "\<exists>cr'. trace (Reconcile r (Some cr)) =
                 [Log_Error (New (''unexpected issuer type: '' @ t))
                    ''The issuerRef referred to a registered Kind which is not yet handled. Ignoring.'',
                  Call_Status_Update cr']
               \<and> CertificateRequestHasCondition cr' Ready_Failed
             \<and> exit (Reconcile r (Some cr)) =
                 Return Result_zero
                   (case Status_Update_err r of
                      None \<Rightarrow> None
                    | Some updateErr \<Rightarrow> Some (Aggregate [updateErr]))
             \<and> (Status_Update_err r = None \<longrightarrow>
                  store (Reconcile r (Some cr)) = Some cr'
                  \<and> (\<forall>r' :: ('i, 's) CertificateRequestReconciler. Get_CertificateRequest_err r' = None \<longrightarrow>
                       exit (Reconcile r' (Some cr')) = Return Result_zero None
                       \<and> (\<exists>msg. trace (Reconcile r' (Some cr')) = [Log_Info msg])))"
    by simp
qed

theorem C9_url_and_variant_witness:
  "takes_on r_bad_url cr_new \<and> resolves r_bad_url cr_new () (iss1\<lparr>URL := '':''\<rparr>) () cred
   \<and> url_Parse r_bad_url (URL (iss1\<lparr>URL := '':''\<rparr>)) = Inl (New ''missing protocol scheme'')
   \<and> exit (Reconcile r_bad_url (Some cr_new)) =
       Return Result_zero
         (Some (Plain (Errorf_w_v errInvalidBaseUrl (New ''missing protocol scheme''))))
   \<and> takes_on r_pending cr_cluster_issuer \<and> \<not> CertificateRequestIsDenied cr_cluster_issuer
   \<and> Scheme_New r_pending (Kind (IssuerRef (Spec cr_cluster_issuer))) = Inr (OtherObject ''&{}'')
   \<and> Status_Update_err r_pending = None
   \<and> exit (Reconcile r_pending (Some cr_cluster_issuer)) = Return Result_zero None"
proof -
  have h1: "takes_on r_bad_url cr_new"
    by (simp add: scenario_defs takes_on_def CertificateRequestHasCondition_def)
  have h2: "resolves r_bad_url cr_new () (iss1\<lparr>URL := '':''\<rparr>) () cred"
    by (simp add: scenario_defs resolves_def CertificateRequestIsDenied_def)
  have h3: "url_Parse r_bad_url (URL (iss1\<lparr>URL := '':''\<rparr>)) = Inl (New ''missing protocol scheme'')"
    by (simp add: scenario_defs)
  have h4: "Status_Update_err r_bad_url = None"
    by (simp add: scenario_defs)
  have k1: "takes_on r_pending cr_cluster_issuer"
    by (simp add: scenario_defs takes_on_def CertificateRequestHasCondition_def)
  have k2: "\<not> CertificateRequestIsDenied cr_cluster_issuer"
    by (simp add: scenario_defs CertificateRequestIsDenied_def)
  have k3: "Scheme_New r_pending (Kind (IssuerRef (Spec cr_cluster_issuer))) = Inr (OtherObject ''&{}'')"
    by (simp add: scenario_defs)
  have k4: "Status_Update_err r_pending = None"
    by (simp add: scenario_defs)
  from C9_url_and_variant [of r_bad_url cr_new "()" "iss1\<lparr>URL := '':''\<rparr>" "()" cred
      "New ''missing protocol scheme''"] h1 h2 h3 h4
  have a: "exit (Reconcile r_bad_url (Some cr_new)) =
       Return Result_zero
         (Some (Plain (Errorf_w_v errInvalidBaseUrl (New ''missing protocol scheme''))))"
    by simp
  from mp [OF C9_url_and_variant [of r_pending cr_cluster_issuer _ _ _ _ _ "''&{}''", THEN conjunct2]
      conjI [OF k1 conjI [OF k2 k3]]]
  obtain cr' where "exit (Reconcile r_pending (Some cr_cluster_issuer)) =
      Return Result_zero
        (case Status_Update_err r_pending of
           None \<Rightarrow> None
         | Some updateErr \<Rightarrow> Some (Aggregate [updateErr]))"
    by (elim exE conjE)
  with k4 have b: "exit (Reconcile r_pending (Some cr_cluster_issuer)) = Return Result_zero None"
    by simp
  from a b h1 h2 h3 k1 k2 k3 k4 show ?thesis by blast
qed

theorem C9_unsupported_variant_counterexample:
  "Scheme_New r_pending (Kind (IssuerRef (Spec cr_cluster_issuer))) = Inr (OtherObject ''&{}'')
   \<and> exit (Reconcile r_pending (Some cr_cluster_issuer)) = Return Result_zero None
   \<and> map_option (\<lambda>c. Conditions (Status c)) (store (Reconcile r_pending (Some cr_cluster_issuer))) =
       Some [\<lparr>Type = CertificateRequestConditionReady, cond_Status = ConditionFalse,
              LastTransitionTime = Some 10, Reason = CertificateRequestReasonFailed,
              Message = ''unexpected issuer type: &{}''\<rparr>]"
  by (simp add: scenario_defs Reconcile_defs)

text \<open>
  C10. A request with a nil annotation map that reaches the submission is enrolled
  at Horizon, and storing the returned id then panics: the reconcile does not
  return, and the stored request is left without the id. With an allocated
  annotation map (and a kind whose type is a \<open>client.Object\<close>) a reconcile never
  panics.
\<close>

theorem C10_nil_annotations:
  "(takes_on r cr \<and> resolves r cr issuer issuerSpec issuerStatus secret
    \<and> url_Parse r (URL issuerSpec) = Inr baseUrl
    \<and> \<not> CertificateRequestIsApproved cr
    \<and> Annotations cr = None
    \<and> Requests_DecentralizedEnroll r (Profile issuerSpec) (Request (Spec cr)) [] = Inr request \<longrightarrow>
      exit (Reconcile r (Some cr)) = Panic
      \<and> trace (Reconcile r (Some cr)) =
          [HorizonClient_Init baseUrl (secret_Data secret ''username'') (secret_Data secret ''password''),
           Call_DecentralizedEnroll (Profile issuerSpec) (Request (Spec cr)) [],
           Call_Status_Update cr]
      \<and> store (Reconcile r (Some cr)) = Some cr)
   \<and> (Annotations cr \<noteq> None \<and> Scheme_New r (Kind (IssuerRef (Spec cr))) \<noteq> Inr NotClientObject \<longrightarrow>
      exit (Reconcile r (Some cr)) \<noteq> Panic)"
proof (intro conjI impI)
  let ?s0 = "\<lparr>obj = cr, stored = Some cr, events = [], clock_reads = 0\<rparr>"
  assume a: "takes_on r cr \<and> resolves r cr issuer issuerSpec issuerStatus secret
    \<and> url_Parse r (URL issuerSpec) = Inr baseUrl
    \<and> \<not> CertificateRequestIsApproved cr
    \<and> Annotations cr = None
    \<and> Requests_DecentralizedEnroll r (Profile issuerSpec) (Request (Spec cr)) [] = Inr request"
  let ?s = "emit (Call_DecentralizedEnroll (Profile issuerSpec) (Request (Spec cr)) [])
            (emit (HorizonClient_Init baseUrl (secret_Data secret ''username'')
                    (secret_Data secret ''password'')) ?s0)"
  have R: "Reconcile r (Some cr) = Reconcile_deferred r (?s, Panic)"
    using a Reconcile_resolved [of r cr issuer issuerSpec issuerStatus secret]
    by (simp add: Reconcile_sign_def Reconcile_submit_def annotation_def Let_def)
  show "exit (Reconcile r (Some cr)) = Panic"
    by (simp add: R deferred_panic)
  show "trace (Reconcile r (Some cr)) =
          [HorizonClient_Init baseUrl (secret_Data secret ''username'') (secret_Data secret ''password''),
           Call_DecentralizedEnroll (Profile issuerSpec) (Request (Spec cr)) [],
           Call_Status_Update cr]"
    by (simp add: R deferred_panic)
  show "store (Reconcile r (Some cr)) = Some cr"
    by (simp add: R Reconcile_deferred_def Let_def split: option.splits)
next
  assume "Annotations cr \<noteq> None \<and> Scheme_New r (Kind (IssuerRef (Spec cr))) \<noteq> Inr NotClientObject"
  with Reconcile_Panic [of r cr] show "exit (Reconcile r (Some cr)) \<noteq> Panic" by blast
qed

theorem C10_nil_annotations_witness:
  "takes_on r_pending cr_no_annotations \<and> resolves r_pending cr_no_annotations () iss1 () cred
   \<and> url_Parse r_pending (URL iss1) = Inr (Parsed ''https://pki.example'')
   \<and> \<not> CertificateRequestIsApproved cr_no_annotations
   \<and> Annotations cr_no_annotations = None
   \<and> Requests_DecentralizedEnroll r_pending (Profile iss1) (Request (Spec cr_no_annotations)) []
       = Inr (req_42 ''pending'' [])
   \<and> exit (Reconcile r_pending (Some cr_no_annotations)) = Panic
   \<and> Annotations cr_new \<noteq> None
   \<and> Scheme_New r_pending (Kind (IssuerRef (Spec cr_new))) \<noteq> Inr NotClientObject
   \<and> exit (Reconcile r_pending (Some cr_new)) \<noteq> Panic"
proof -
  have h1: "takes_on r_pending cr_no_annotations"
    by (simp add: scenario_defs takes_on_def CertificateRequestHasCondition_def)
  have h2: "resolves r_pending cr_no_annotations () iss1 () cred"
    by (simp add: scenario_defs resolves_def CertificateRequestIsDenied_def)
  have h3: "url_Parse r_pending (URL iss1) = Inr (Parsed ''https://pki.example'')"
    by (simp add: scenario_defs)
  have h4: "\<not> CertificateRequestIsApproved cr_no_annotations"
    by (simp add: scenario_defs CertificateRequestIsApproved_def)
  have h5: "Annotations cr_no_annotations = None"
    by (simp add: scenario_defs)
  have h6: "Requests_DecentralizedEnroll r_pending (Profile iss1) (Request (Spec cr_no_annotations)) []
       = Inr (req_42 ''pending'' [])"
    by (simp add: scenario_defs)
  have k1: "Annotations cr_new \<noteq> None"
    by (simp add: scenario_defs)
  have k2: "Scheme_New r_pending (Kind (IssuerRef (Spec cr_new))) \<noteq> Inr NotClientObject"
    by (simp add: scenario_defs)
  from C10_nil_annotations [of r_pending cr_no_annotations "()" iss1 "()" cred
      "Parsed ''https://pki.example''" "req_42 ''pending'' []"] h1 h2 h3 h4 h5 h6
  have a: "exit (Reconcile r_pending (Some cr_no_annotations)) = Panic"
    by blast
  from C10_nil_annotations [of r_pending cr_new] k1 k2
  have b: "exit (Reconcile r_pending (Some cr_new)) \<noteq> Panic"
    by blast
  from a b h1 h2 h3 h4 h5 h6 k1 k2 show ?thesis by blast
qed

end
